theory Spec2Isabelle
  imports Main "HOL-Library.Sublist" "HOL-Library.List_Lexorder" "HOL-Library.Product_Lexorder" "HOL-Library.AList"
begin

section \<open>Python strings\<close>

text \<open>
  A Python \<open>str\<close> is a sequence of Unicode code points; \<open>ord\<close> reads one as a
  non-negative integer. Source literals are written \<open>str ''...''\<close>; single characters
  appear by code point: 10 is the newline, 36 \<open>$\<close>, 42 \<open>*\<close>, 46 the dot, 63 \<open>?\<close>,
  92 the backslash and 94 \<open>^\<close>.
\<close>

type_synonym pystr = "nat list"

definition str :: "string \<Rightarrow> pystr" where
  "str s = map of_char s"

text \<open>\<open>x in s\<close> on strings is contiguous containment; the empty string is in every string.\<close>

definition str_in :: "pystr \<Rightarrow> pystr \<Rightarrow> bool" where
  "str_in x s = sublist x s"

text \<open>\<open>s.replace(c, r)\<close> for a one-character \<open>c\<close>.\<close>

definition replace_char :: "nat \<Rightarrow> pystr \<Rightarrow> pystr \<Rightarrow> pystr" where
  "replace_char c r s = concat (map (\<lambda>x. if x = c then r else [x]) s)"

text \<open>\<open>str(n)\<close> for an integer: decimal digits, with a sign when negative.\<close>

fun digits10 :: "nat \<Rightarrow> pystr" where
  "digits10 n = (if n < 10 then [48 + n] else digits10 (n div 10) @ [48 + n mod 10])"

definition str_int :: "int \<Rightarrow> pystr" where
  "str_int i = (if i < 0 then 45 # digits10 (nat (- i)) else digits10 (nat i))"

text \<open>\<open>oct(n)\<close> for a non-negative integer, and the slice \<open>s[-3:]\<close>.\<close>

fun digits8 :: "nat \<Rightarrow> pystr" where
  "digits8 n = (if n < 8 then [48 + n] else digits8 (n div 8) @ [48 + n mod 8])"

definition oct :: "nat \<Rightarrow> pystr" where
  "oct n = str ''0o'' @ digits8 n"

definition last3 :: "pystr \<Rightarrow> pystr" where
  "last3 s = drop (length s - 3) s"

text \<open>
  \<open>str.isspace\<close> per code point, \<open>s.strip()\<close> and \<open>s.splitlines()\<close>, as CPython defines
  them: the whitespace set of \<open>strip\<close> is the Unicode White\_Space property together
  with the separators U+001C--U+001F; the line boundaries of \<open>splitlines\<close> are LF, CR,
  CR LF, VT, FF, FS, GS, RS, NEL, LS and PS.
\<close>

definition is_space :: "nat \<Rightarrow> bool" where
  "is_space c \<longleftrightarrow>
     (0x09 \<le> c \<and> c \<le> 0x0D) \<or> (0x1C \<le> c \<and> c \<le> 0x20) \<or> c = 0x85 \<or> c = 0xA0 \<or>
     c = 0x1680 \<or> (0x2000 \<le> c \<and> c \<le> 0x200A) \<or> c = 0x2028 \<or> c = 0x2029 \<or>
     c = 0x202F \<or> c = 0x205F \<or> c = 0x3000"

definition strip :: "pystr \<Rightarrow> pystr" where
  "strip s = rev (dropWhile is_space (rev (dropWhile is_space s)))"

definition is_linebreak :: "nat \<Rightarrow> bool" where
  "is_linebreak c \<longleftrightarrow>
     (0x0A \<le> c \<and> c \<le> 0x0D) \<or> (0x1C \<le> c \<and> c \<le> 0x1E) \<or> c = 0x85 \<or>
     c = 0x2028 \<or> c = 0x2029"

text \<open>
  \<open>splitlines cur s\<close>: the lines of \<open>s\<close>, where \<open>cur\<close> holds the characters of the
  line being read; a final line with no terminator counts when it is not empty.
\<close>

fun splitlines :: "pystr \<Rightarrow> pystr \<Rightarrow> pystr list" where
  "splitlines cur [] = (if cur = [] then [] else [cur])"
| "splitlines cur [c] = (if is_linebreak c then [cur] else [cur @ [c]])"
| "splitlines cur (c # d # rest) =
     (if c = 0x0D \<and> d = 0x0A then cur # splitlines [] rest
      else if is_linebreak c then cur # splitlines [] (d # rest)
      else splitlines (cur @ [c]) (d # rest))"

section \<open>Paths (pathlib, POSIX flavour)\<close>

text \<open>
  A path is its anchor (\<open>''''\<close> for a relative path, \<open>''/''\<close> for an absolute one) and
  its components. \<open>str(p)\<close> joins the components with \<open>/\<close> after the anchor, \<open>p.name\<close>
  is the last component, \<open>p / n\<close> appends one.
\<close>

datatype path = Path (anchor: pystr) (parts: "pystr list")

fun join_sep :: "pystr list \<Rightarrow> pystr" where
  "join_sep [] = []"
| "join_sep [x] = x"
| "join_sep (x # y # ys) = x @ str ''/'' @ join_sep (y # ys)"

definition path_str :: "path \<Rightarrow> pystr" where
  "path_str p =
     (if anchor p = [] \<and> parts p = [] then str ''.'' else anchor p @ join_sep (parts p))"

definition path_name :: "path \<Rightarrow> pystr" where
  "path_name p = (if parts p = [] then [] else last (parts p))"

definition joinpath :: "path \<Rightarrow> pystr \<Rightarrow> path" where
  "joinpath p n = Path (anchor p) (parts p @ [n])"

text \<open>
  \<open>p.suffix\<close>: with \<open>i = name.rfind('.')\<close>, the slice \<open>name[i:]\<close> when
  \<open>0 < i < len(name) - 1\<close>, else the empty string.
\<close>

definition rfind_dot :: "pystr \<Rightarrow> nat option" where
  "rfind_dot name =
     (if 46 \<in> set name
      then Some (length name - Suc (length (takeWhile (\<lambda>c. c \<noteq> 46) (rev name))))
      else None)"

definition path_suffix :: "path \<Rightarrow> pystr" where
  "path_suffix p =
     (let name = path_name p in
      case rfind_dot name of
        None \<Rightarrow> []
      | Some i \<Rightarrow> (if 0 < i \<and> i + 1 < length name then drop i name else []))"

section \<open>The file system seen by one run\<close>

text \<open>
  The tree is read, never written, before the document is stored, so one run sees one
  value per observation. An entry is a regular file, a directory that lists, a directory
  whose listing raises \<open>PermissionError\<close>, or anything else. A file carries what \<open>stat()\<close>,
  the 1KB probe \<open>open(...).read(1024)\<close> and the full \<open>open(...).read()\<close> give: an error or
  a value. Files are read as text with \<open>errors='ignore'\<close>, so the read value is the decoded
  text and no decoding error arises. Directories and other entries are taken to \<open>stat()\<close>
  without error. Symbolic links are not modelled.

  An \<open>OSError\<close> carries its \<open>errno\<close> (Linux numbers) and its message; \<open>PermissionError\<close> is
  the subclass for \<open>EACCES\<close> and \<open>EPERM\<close>.
\<close>

datatype os_error = OSError nat pystr | PermissionError pystr

fun error_str :: "os_error \<Rightarrow> pystr" where
  "error_str (OSError n msg) = msg"
| "error_str (PermissionError msg) = msg"

text \<open>
  \<open>Path.is_file()\<close>, \<open>Path.is_dir()\<close> and \<open>Path.exists()\<close> call \<open>stat()\<close>. When it fails with
  \<open>ENOENT\<close> (2), \<open>EBADF\<close> (9), \<open>ENOTDIR\<close> (20) or \<open>ELOOP\<close> (40) they answer \<open>False\<close>; any
  other \<open>OSError\<close> they raise again.
\<close>

definition pathlib_ignores :: "os_error \<Rightarrow> bool" where
  "pathlib_ignores e =
     (case e of
        OSError n _ \<Rightarrow> n = 2 \<or> n = 9 \<or> n = 20 \<or> n = 40
      | PermissionError _ \<Rightarrow> False)"

record stat_result =
  st_size :: int
  st_mtime :: int
  st_ctime :: int
  st_mode :: nat

record file_obs =
  f_stat :: "os_error + stat_result"
  f_probe :: "os_error + unit"
  f_read :: "os_error + pystr"

datatype fs_node =
    File file_obs
  | Dir "(pystr \<times> fs_node) list"
  | DeniedDir
  | Other

text \<open>
  The answer of a \<open>stat()\<close>-based test on a file: \<open>yes\<close> when \<open>stat()\<close> succeeds, \<open>False\<close> or
  the error raised again when it fails.
\<close>

definition stat_test :: "file_obs \<Rightarrow> bool \<Rightarrow> os_error + bool" where
  "stat_test obs yes =
     (case f_stat obs of
        Inr _ \<Rightarrow> Inr yes
      | Inl e \<Rightarrow> (if pathlib_ignores e then Inr False else Inl e))"

fun is_file :: "fs_node \<Rightarrow> os_error + bool" where
  "is_file (File obs) = stat_test obs True"
| "is_file _ = Inr False"

fun is_dir :: "fs_node \<Rightarrow> os_error + bool" where
  "is_dir (Dir _) = Inr True"
| "is_dir DeniedDir = Inr True"
| "is_dir (File obs) = stat_test obs False"
| "is_dir Other = Inr False"

fun path_exists :: "fs_node \<Rightarrow> os_error + bool" where
  "path_exists (File obs) = stat_test obs True"
| "path_exists _ = Inr True"

text \<open>
  \<open>iterdir()\<close>: the entries in the order the system lists them; it raises on anything
  that does not list.
\<close>

fun iterdir :: "fs_node \<Rightarrow> os_error + (pystr \<times> fs_node) list" where
  "iterdir (Dir entries) = Inr entries"
| "iterdir DeniedDir = Inl (PermissionError (str ''Permission denied''))"
| "iterdir _ = Inl (OSError 20 (str ''Not a directory''))"

text \<open>
  \<open>p.rglob('*')\<close>: every directory below \<open>p\<close> (and \<open>p\<close> itself) in pre-order, each giving
  all of its entries in listing order; a directory that does not list gives none.
\<close>

definition select_from :: "path \<Rightarrow> (pystr \<times> fs_node) list \<Rightarrow> (path \<times> fs_node) list" where
  "select_from p entries = map (\<lambda>(n, k). (joinpath p n, k)) entries"

fun below :: "path \<Rightarrow> (pystr \<times> fs_node) list \<Rightarrow> (path \<times> fs_node) list" where
  "below p [] = []"
| "below p ((n, k) # rest) =
     (case k of
        Dir sub \<Rightarrow> select_from (joinpath p n) sub @ below (joinpath p n) sub
      | _ \<Rightarrow> []) @ below p rest"

definition rglob :: "path \<Rightarrow> fs_node \<Rightarrow> (path \<times> fs_node) list" where
  "rglob p k = (case k of Dir entries \<Rightarrow> select_from p entries @ below p entries | _ \<Rightarrow> [])"

section \<open>What the Python runtime supplies\<close>

text \<open>
  Functions of the standard library whose tables are not part of the program:
  \<open>str.lower\<close> (the Unicode case table), \<open>mimetypes.guess_type\<close> (the system's MIME
  tables), the rendering \<open>datetime.fromtimestamp(t).isoformat()\<close> (local time zone),
  \<open>datetime.now().isoformat()\<close> and the working directory.
\<close>

record host =
  str_lower :: "pystr \<Rightarrow> pystr"
  guess_type :: "pystr \<Rightarrow> pystr option"
  isoformat :: "int \<Rightarrow> pystr"
  now_isoformat :: pystr
  getcwd :: path

definition absolute :: "host \<Rightarrow> path \<Rightarrow> path" where
  "absolute h p =
     (if anchor p \<noteq> [] then p else Path (anchor (getcwd h)) (parts (getcwd h) @ parts p))"

text \<open>
  A host to evaluate on: ASCII names, empty MIME tables, timestamps rendered as plain
  numbers.
\<close>

definition ascii_lower :: "pystr \<Rightarrow> pystr" where
  "ascii_lower s = map (\<lambda>c. if 65 \<le> c \<and> c \<le> 90 then c + 32 else c) s"

definition plain_host :: host where
  "plain_host =
     \<lparr> str_lower = ascii_lower,
       guess_type = (\<lambda>_. None),
       isoformat = str_int,
       now_isoformat = str ''2024-01-01T00:00:00'',
       getcwd = Path (str ''/'') [str ''work''] \<rparr>"

section \<open>FileTypeDetector\<close>

definition table :: "(string \<times> string) list \<Rightarrow> (pystr \<times> pystr) list" where
  "table kvs = map (\<lambda>(k, v). (str k, str v)) kvs"

definition PROGRAMMING_EXTENSIONS :: "(pystr \<times> pystr) list" where
  "PROGRAMMING_EXTENSIONS = table
     [(''.py'', ''python''), (''.js'', ''javascript''), (''.ts'', ''typescript''),
      (''.java'', ''java''), (''.cpp'', ''cpp''), (''.c'', ''c''), (''.h'', ''header''),
      (''.hpp'', ''header''), (''.cs'', ''csharp''), (''.php'', ''php''), (''.rb'', ''ruby''),
      (''.go'', ''go''), (''.rs'', ''rust''), (''.swift'', ''swift''), (''.kt'', ''kotlin''),
      (''.scala'', ''scala''), (''.r'', ''r''), (''.m'', ''matlab''), (''.sh'', ''shell''),
      (''.bash'', ''shell''), (''.zsh'', ''shell''), (''.fish'', ''shell''),
      (''.ps1'', ''powershell''), (''.sql'', ''sql''), (''.pl'', ''perl''), (''.lua'', ''lua''),
      (''.dart'', ''dart''), (''.elm'', ''elm''), (''.ex'', ''elixir''), (''.exs'', ''elixir''),
      (''.clj'', ''clojure''), (''.hs'', ''haskell''), (''.ml'', ''ocaml''),
      (''.fs'', ''fsharp''), (''.vb'', ''vbasic'')]"

definition CONFIG_EXTENSIONS :: "(pystr \<times> pystr) list" where
  "CONFIG_EXTENSIONS = table
     [(''.json'', ''json''), (''.yaml'', ''yaml''), (''.yml'', ''yaml''), (''.toml'', ''toml''),
      (''.ini'', ''ini''), (''.cfg'', ''config''), (''.conf'', ''config''),
      (''.properties'', ''properties''), (''.env'', ''environment''),
      (''.dockerignore'', ''docker''), (''.gitignore'', ''git''),
      (''.gitattributes'', ''git''), (''.editorconfig'', ''editor'')]"

definition DOCUMENTATION_EXTENSIONS :: "(pystr \<times> pystr) list" where
  "DOCUMENTATION_EXTENSIONS = table
     [(''.md'', ''markdown''), (''.rst'', ''restructuredtext''), (''.txt'', ''text''),
      (''.doc'', ''word''), (''.docx'', ''word''), (''.pdf'', ''pdf''), (''.rtf'', ''rtf''),
      (''.tex'', ''latex''), (''.org'', ''org-mode''), (''.wiki'', ''wiki'')]"

definition WEB_EXTENSIONS :: "(pystr \<times> pystr) list" where
  "WEB_EXTENSIONS = table
     [(''.html'', ''html''), (''.htm'', ''html''), (''.xml'', ''xml''), (''.xhtml'', ''xhtml''),
      (''.css'', ''css''), (''.scss'', ''scss''), (''.sass'', ''sass''), (''.less'', ''less''),
      (''.vue'', ''vue''), (''.jsx'', ''jsx''), (''.tsx'', ''tsx''), (''.svelte'', ''svelte'')]"

definition DATA_EXTENSIONS :: "(pystr \<times> pystr) list" where
  "DATA_EXTENSIONS = table
     [(''.csv'', ''csv''), (''.tsv'', ''tsv''), (''.xlsx'', ''excel''), (''.xls'', ''excel''),
      (''.ods'', ''spreadsheet''), (''.sqlite'', ''sqlite''), (''.db'', ''database''),
      (''.parquet'', ''parquet''), (''.arrow'', ''arrow''), (''.avro'', ''avro'')]"

definition MEDIA_EXTENSIONS :: "(pystr \<times> pystr) list" where
  "MEDIA_EXTENSIONS = table
     [(''.png'', ''image''), (''.jpg'', ''image''), (''.jpeg'', ''image''), (''.gif'', ''image''),
      (''.svg'', ''vector''), (''.ico'', ''icon''), (''.bmp'', ''image''), (''.tiff'', ''image''),
      (''.mp4'', ''video''), (''.avi'', ''video''), (''.mov'', ''video''), (''.wmv'', ''video''),
      (''.mp3'', ''audio''), (''.wav'', ''audio''), (''.flac'', ''audio''), (''.ogg'', ''audio'')]"

definition SPECIAL_FILES :: "(pystr \<times> pystr) list" where
  "SPECIAL_FILES = table
     [(''README'', ''documentation''), (''LICENSE'', ''license''),
      (''CHANGELOG'', ''documentation''), (''CONTRIBUTING'', ''documentation''),
      (''INSTALL'', ''documentation''), (''MANIFEST'', ''manifest''),
      (''Makefile'', ''build''), (''makefile'', ''build''), (''CMakeLists.txt'', ''build''),
      (''Dockerfile'', ''docker''), (''docker-compose.yml'', ''docker''),
      (''docker-compose.yaml'', ''docker''), (''requirements.txt'', ''dependencies''),
      (''package.json'', ''dependencies''), (''setup.py'', ''setup''), (''setup.cfg'', ''setup''),
      (''pyproject.toml'', ''setup''), (''Cargo.toml'', ''dependencies''),
      (''pom.xml'', ''dependencies''), (''build.gradle'', ''build''),
      (''package-lock.json'', ''lockfile''), (''yarn.lock'', ''lockfile''),
      (''Pipfile.lock'', ''lockfile'')]"

text \<open>
  The extension tables in the order \<open>detect_type\<close> consults them; \<open>first_hit\<close> is the
  \<open>if\<close>/\<open>elif\<close> chain over them.
\<close>

definition extension_tables :: "(pystr \<times> pystr) list list" where
  "extension_tables =
     [PROGRAMMING_EXTENSIONS, CONFIG_EXTENSIONS, DOCUMENTATION_EXTENSIONS,
      WEB_EXTENSIONS, DATA_EXTENSIONS, MEDIA_EXTENSIONS]"

fun first_hit :: "(pystr \<times> pystr) list list \<Rightarrow> pystr \<Rightarrow> pystr option" where
  "first_hit [] sfx = None"
| "first_hit (t # ts) sfx =
     (case map_of t sfx of Some v \<Rightarrow> Some v | None \<Rightarrow> first_hit ts sfx)"

text \<open>The MIME fallback: the category of a guessed type, when it has one of the five prefixes.\<close>

definition mime_category :: "pystr \<Rightarrow> pystr option" where
  "mime_category mime_type =
     (if prefix (str ''text/'') mime_type then Some (str ''text'')
      else if prefix (str ''image/'') mime_type then Some (str ''image'')
      else if prefix (str ''audio/'') mime_type then Some (str ''audio'')
      else if prefix (str ''video/'') mime_type then Some (str ''video'')
      else if prefix (str ''application/'') mime_type then Some (str ''binary'')
      else None)"

definition default_fallback :: "pystr \<Rightarrow> pystr" where
  "default_fallback sfx =
     (if sfx \<noteq> [] then str ''unknown'' @ sfx else str ''unknown'')"

definition detect_type :: "host \<Rightarrow> path \<Rightarrow> pystr" where
  "detect_type h file_path =
     (let filename = path_name file_path;
          sfx = str_lower h (path_suffix file_path)
      in case map_of SPECIAL_FILES filename of
           Some v \<Rightarrow> v
         | None \<Rightarrow>
            (case first_hit extension_tables sfx of
               Some v \<Rightarrow> v
             | None \<Rightarrow>
                (case guess_type h (path_str file_path) of
                   None \<Rightarrow> default_fallback sfx
                 | Some mime_type \<Rightarrow>
                    (if mime_type = [] then default_fallback sfx
                     else case mime_category mime_type of
                            Some v \<Rightarrow> v
                          | None \<Rightarrow> default_fallback sfx))))"

section \<open>Regular expressions as the ignore filter builds them\<close>

text \<open>
  \<open>_match_pattern\<close> hands \<open>re.match\<close> the string \<open>^R$\<close>, where \<open>R\<close> is the pattern with
  every \<open>*\<close> turned into \<open>.*\<close> and every \<open>?\<close> into \<open>.\<close>. The model reads the fragment of
  the syntax of \<open>re\<close> such a string is in when the pattern's other characters are ordinary
  or dots: a sequence of literal characters, \<open>.\<close> (any character but a newline) and \<open>.*\<close>,
  between \<open>^\<close> and \<open>$\<close> (the end of the string, or just before a newline that ends it).
  Any other metacharacter gives \<open>None\<close>: there Python raises \<open>re.error\<close>, which nothing in
  the program catches, or applies syntax this model does not read.
\<close>

datatype atom = Lit nat | AnyChar | AnyRun

definition re_special :: "nat \<Rightarrow> bool" where
  "re_special c \<longleftrightarrow> c \<in> set (str ''.^$*+?{}[]|()'' @ [92])"

fun re_parse :: "pystr \<Rightarrow> atom list option" where
  "re_parse [] = Some []"
| "re_parse [c] =
     (if c = 46 then Some [AnyChar] else if re_special c then None else Some [Lit c])"
| "re_parse (c # d # rest) =
     (if c = 46 \<and> d = 42 then map_option (Cons AnyRun) (re_parse rest)
      else if c = 46 then map_option (Cons AnyChar) (re_parse (d # rest))
      else if re_special c then None
      else map_option (Cons (Lit c)) (re_parse (d # rest)))"

fun match_atoms :: "atom list \<Rightarrow> pystr \<Rightarrow> bool" where
  "match_atoms [] s = (s = [] \<or> s = [10])"
| "match_atoms (Lit c # as) [] = False"
| "match_atoms (Lit c # as) (x # xs) = (x = c \<and> match_atoms as xs)"
| "match_atoms (AnyChar # as) [] = False"
| "match_atoms (AnyChar # as) (x # xs) = (x \<noteq> 10 \<and> match_atoms as xs)"
| "match_atoms (AnyRun # as) [] = match_atoms as []"
| "match_atoms (AnyRun # as) (x # xs) =
     (match_atoms as (x # xs) \<or> (x \<noteq> 10 \<and> match_atoms (AnyRun # as) xs))"

text \<open>\<open>re.match(regex, name) is not None\<close>.\<close>

definition re_match :: "pystr \<Rightarrow> pystr \<Rightarrow> bool option" where
  "re_match regex name =
     (case regex of
        [] \<Rightarrow> None
      | c # body \<Rightarrow>
          (if c = 94 \<and> body \<noteq> [] \<and> last body = 36
           then map_option (\<lambda>atoms. match_atoms atoms name) (re_parse (butlast body))
           else None))"

section \<open>CodebaseArchiver\<close>

record archiver =
  ignore_patterns :: "pystr list"
  max_file_size :: int
  include_binary :: bool

definition default_ignore_patterns :: "pystr list" where
  "default_ignore_patterns =
     [str ''*.pyc'', str ''__pycache__'', str ''.git'', str ''.svn'', str ''.hg'',
      str ''node_modules'', str ''.DS_Store'', str ''*.log'', str ''*.tmp'',
      str ''.venv'', str ''venv'', str ''.env'', str ''.idea'', str ''.vscode'']"

text \<open>
  \<open>__init__\<close>: the argument \<open>ignore_patterns\<close> is \<open>None\<close> or a list; the expression
  \<open>ignore_patterns or [...]\<close> takes the defaults whenever the argument is falsy, and
  both \<open>None\<close> and the empty list are falsy.
\<close>

definition init :: "pystr list option \<Rightarrow> int \<Rightarrow> bool \<Rightarrow> archiver" where
  "init pats max_size inc_bin =
     \<lparr> ignore_patterns =
         (case pats of
            None \<Rightarrow> default_ignore_patterns
          | Some ps \<Rightarrow> (if ps = [] then default_ignore_patterns else ps)),
       max_file_size = max_size,
       include_binary = inc_bin \<rparr>"

definition default_max_file_size :: int where
  "default_max_file_size = 10 * 1024 * 1024"

definition default_archiver :: archiver where
  "default_archiver = init None default_max_file_size False"

subsection \<open>Ignore filter\<close>

definition match_pattern :: "pystr \<Rightarrow> pystr \<Rightarrow> bool option" where
  "match_pattern name pattern =
     (if 42 \<in> set pattern
      then (let regex_pattern = replace_char 63 (str ''.'') (replace_char 42 (str ''.*'') pattern)
            in re_match (str ''^'' @ regex_pattern @ str ''$'') name)
      else Some (name = pattern))"

text \<open>
  The loop of \<open>_should_ignore\<close> over the patterns: \<open>or\<close> evaluates the name match only
  when the pattern is not in the path string, and the first hit returns.
\<close>

fun ignore_loop :: "pystr \<Rightarrow> pystr \<Rightarrow> pystr list \<Rightarrow> bool option" where
  "ignore_loop path_s name [] = Some False"
| "ignore_loop path_s name (pattern # rest) =
     (if str_in pattern path_s then Some True
      else case match_pattern name pattern of
             None \<Rightarrow> None
           | Some True \<Rightarrow> Some True
           | Some False \<Rightarrow> ignore_loop path_s name rest)"

definition should_ignore :: "archiver \<Rightarrow> path \<Rightarrow> bool option" where
  "should_ignore a p = ignore_loop (path_str p) (path_name p) (ignore_patterns a)"

subsection \<open>Text eligibility, file statistics, line count\<close>

definition binary_types :: "pystr list" where
  "binary_types =
     [str ''image'', str ''audio'', str ''video'', str ''binary'', str ''excel'',
      str ''sqlite'', str ''database'']"

text \<open>
  \<open>_is_text_file\<close>: the first \<open>if\<close> block rejects by classification, with \<open>bt in file_type\<close>
  a containment test between strings; what is left is the 1KB probe.
\<close>

definition rejected_as_binary :: "host \<Rightarrow> archiver \<Rightarrow> path \<Rightarrow> bool" where
  "rejected_as_binary h a file_path \<longleftrightarrow>
     \<not> include_binary a \<and>
     list_ex (\<lambda>bt. str_in bt (detect_type h file_path)) binary_types"

definition is_text_file :: "host \<Rightarrow> archiver \<Rightarrow> path \<Rightarrow> file_obs \<Rightarrow> bool" where
  "is_text_file h a file_path obs =
     (if rejected_as_binary h a file_path then False
      else (case f_probe obs of Inr _ \<Rightarrow> True | Inl _ \<Rightarrow> False))"

text \<open>\<open>_get_file_stats\<close>: the dictionary in insertion order, empty when \<open>stat()\<close> raises.\<close>

definition get_file_stats :: "host \<Rightarrow> file_obs \<Rightarrow> (pystr \<times> pystr) list" where
  "get_file_stats h obs =
     (case f_stat obs of
        Inr st \<Rightarrow>
          [(str ''size'', str_int (st_size st)),
           (str ''modified'', isoformat h (st_mtime st)),
           (str ''created'', isoformat h (st_ctime st)),
           (str ''permissions'', last3 (oct (st_mode st)))]
      | Inl _ \<Rightarrow> [])"

definition count_lines :: "pystr \<Rightarrow> nat" where
  "count_lines content = (if content \<noteq> [] then length (splitlines [] content) else 0)"

subsection \<open>Content sanitizer\<close>

definition xml_legal :: "nat \<Rightarrow> bool" where
  "xml_legal code \<longleftrightarrow>
     code = 0x09 \<or> code = 0x0A \<or> code = 0x0D \<or>
     (0x20 \<le> code \<and> code \<le> 0xD7FF) \<or>
     (0xE000 \<le> code \<and> code \<le> 0xFFFD) \<or>
     (0x10000 \<le> code \<and> code \<le> 0x10FFFF)"

definition replacement_char :: nat where
  "replacement_char = 0xFFFD"

fun clean_loop :: "pystr \<Rightarrow> pystr \<Rightarrow> pystr" where
  "clean_loop valid_chars [] = valid_chars"
| "clean_loop valid_chars (char # rest) =
     (if xml_legal char
      then clean_loop (valid_chars @ [char]) rest
      else clean_loop (valid_chars @ [replacement_char]) rest)"

definition clean_xml_content :: "pystr \<Rightarrow> pystr" where
  "clean_xml_content content =
     (if content = [] then content else clean_loop [] content)"

subsection \<open>Element trees\<close>

text \<open>
  An \<open>ET.Element\<close>: tag, attributes in insertion order (\<open>set\<close> overwrites a key in
  place or appends a new one), text, children.
\<close>

datatype xml = Element (tag: pystr) (attrib: "(pystr \<times> pystr) list") (elem_text: "pystr option")
  (children: "xml list")

definition new_element :: "pystr \<Rightarrow> xml" where
  "new_element t = Element t [] None []"

fun set_attr :: "pystr \<Rightarrow> pystr \<Rightarrow> xml \<Rightarrow> xml" where
  "set_attr k v (Element t as tx cs) = Element t (AList.update k v as) tx cs"

fun set_text :: "pystr \<Rightarrow> xml \<Rightarrow> xml" where
  "set_text s (Element t as tx cs) = Element t as (Some s) cs"

fun append :: "xml \<Rightarrow> xml \<Rightarrow> xml" where
  "append c (Element t as tx cs) = Element t as tx (cs @ [c])"

definition get_attr :: "xml \<Rightarrow> pystr \<Rightarrow> pystr option" where
  "get_attr e k = map_of (attrib e) k"

definition text_element :: "pystr \<Rightarrow> pystr \<Rightarrow> xml" where
  "text_element t s = set_text s (new_element t)"

text \<open>\<open>e.find(t)\<close> and \<open>e.findall(t)\<close>: the first child, and all children, with tag \<open>t\<close>.\<close>

definition find_child :: "pystr \<Rightarrow> xml \<Rightarrow> xml option" where
  "find_child t e = List.find (\<lambda>c. tag c = t) (children e)"

definition findall :: "pystr \<Rightarrow> xml \<Rightarrow> xml list" where
  "findall t e = filter (\<lambda>c. tag c = t) (children e)"

subsection \<open>Metadata extractor\<close>

record metadata =
  md_name :: pystr
  md_path :: pystr
  md_timestamp :: pystr
  total_files :: nat
  total_directories :: nat
  total_size :: int
  file_types :: "(pystr \<times> nat) list"
  languages :: "pystr list"

definition bump :: "pystr \<Rightarrow> (pystr \<times> nat) list \<Rightarrow> (pystr \<times> nat) list" where
  "bump file_type d =
     AList.update file_type ((case map_of d file_type of None \<Rightarrow> 0 | Some c \<Rightarrow> c) + 1) d"

text \<open>
  One round of the loop over \<open>rglob('*')\<close> for an entry that is not ignored. The guards
  \<open>item.is_file()\<close> and \<open>item.is_dir()\<close> stand outside the \<open>try\<close>: an error they raise
  leaves the loop and the extractor. \<open>is_file()\<close> answers \<open>True\<close> for a regular file only,
  and \<open>item.stat()\<close> inside the \<open>try\<close> is that file's observation. The file counter moves
  before \<open>stat()\<close> is tried; when \<open>stat()\<close> raises there, the rest of the round is skipped.
\<close>

definition count_file :: "host \<Rightarrow> metadata \<Rightarrow> path \<Rightarrow> file_obs \<Rightarrow> metadata" where
  "count_file h md item obs =
     (let md1 = md\<lparr>total_files := total_files md + 1\<rparr> in
      case f_stat obs of
        Inl _ \<Rightarrow> md1
      | Inr st \<Rightarrow>
         (let file_type = detect_type h item;
              md2 = md1\<lparr>total_size := total_size md1 + st_size st,
                        file_types := bump file_type (file_types md1)\<rparr>
          in if file_type \<in> set (map snd PROGRAMMING_EXTENSIONS)
             then md2\<lparr>languages := List.insert file_type (languages md2)\<rparr>
             else md2))"

definition count_item :: "host \<Rightarrow> metadata \<Rightarrow> path \<times> fs_node \<Rightarrow> os_error + metadata" where
  "count_item h md item =
     (case is_file (snd item) of
        Inl e \<Rightarrow> Inl e
      | Inr True \<Rightarrow>
          (case snd item of
             File obs \<Rightarrow> Inr (count_file h md (fst item) obs)
           | _ \<Rightarrow> Inr md)
      | Inr False \<Rightarrow>
          (case is_dir (snd item) of
             Inl e \<Rightarrow> Inl e
           | Inr True \<Rightarrow> Inr (md\<lparr>total_directories := total_directories md + 1\<rparr>)
           | Inr False \<Rightarrow> Inr md))"

text \<open>
  The loop: \<open>None\<close> when an ignore pattern lies outside the modelled expressions,
  \<open>Some (Inl e)\<close> when the extractor raises \<open>e\<close>, \<open>Some (Inr md)\<close> when it returns.
\<close>

fun extract_loop ::
  "host \<Rightarrow> archiver \<Rightarrow> metadata \<Rightarrow> (path \<times> fs_node) list \<Rightarrow> (os_error + metadata) option" where
  "extract_loop h a md [] = Some (Inr md)"
| "extract_loop h a md (item # rest) =
     (case should_ignore a (fst item) of
        None \<Rightarrow> None
      | Some True \<Rightarrow> extract_loop h a md rest
      | Some False \<Rightarrow>
          (case count_item h md item of
             Inl e \<Rightarrow> Some (Inl e)
           | Inr md' \<Rightarrow> extract_loop h a md' rest))"

definition extract_metadata ::
  "host \<Rightarrow> archiver \<Rightarrow> path \<Rightarrow> fs_node \<Rightarrow> (os_error + metadata) option" where
  "extract_metadata h a codebase_path root =
     extract_loop h a
       \<lparr> md_name = path_name codebase_path,
         md_path = path_str (absolute h codebase_path),
         md_timestamp = now_isoformat h,
         total_files = 0,
         total_directories = 0,
         total_size = 0,
         file_types = [],
         languages = [] \<rparr>
       (rglob codebase_path root)"

subsection \<open>Structure builder\<close>

text \<open>
  The sort key of \<open>sorted(current_path.iterdir(), key=...)\<close>: \<open>x.is_file()\<close> may raise,
  and then the key does. Tuples compare lexicographically, \<open>False < True\<close>, strings by code
  point.
\<close>

definition child_key :: "host \<Rightarrow> pystr \<times> fs_node \<Rightarrow> os_error + bool \<times> pystr" where
  "child_key h child =
     (case is_file (snd child) of
        Inl e \<Rightarrow> Inl e
      | Inr b \<Rightarrow> Inr (b, str_lower h (fst child)))"

text \<open>
  \<open>sorted\<close> computes the key of every entry, in order, before it compares any: the first
  key that raises ends the call. It is stable, as \<open>sort_key\<close> is.
\<close>

definition sorted_children ::
  "host \<Rightarrow> (pystr \<times> fs_node) list \<Rightarrow> os_error + (pystr \<times> fs_node) list" where
  "sorted_children h entries =
     (case List.find (\<lambda>child. isl (child_key h child)) entries of
        Some child \<Rightarrow> Inl (projl (child_key h child))
      | None \<Rightarrow> Inr (sort_key (\<lambda>child. projr (child_key h child)) entries))"

fun weight :: "fs_node \<Rightarrow> nat" where
  "weight (Dir entries) = Suc (sum_list (map (\<lambda>(n, k). Suc (weight k)) entries))"
| "weight _ = 1"

lemma sum_list_insort_key:
  fixes f :: "'a \<Rightarrow> nat"
  shows "sum_list (map f (insort_key g x xs)) = f x + sum_list (map f xs)"
  by (induction xs) auto

lemma sum_list_sort_key:
  fixes f :: "'a \<Rightarrow> nat"
  shows "sum_list (map f (sort_key g xs)) = sum_list (map f xs)"
  by (induction xs) (simp_all add: sum_list_insort_key)

lemma iterdir_Inr: "iterdir node = Inr entries \<Longrightarrow> node = Dir entries"
  by (cases node) auto

lemma sorted_children_Inr:
  fixes f :: "pystr \<times> fs_node \<Rightarrow> nat"
  shows "sorted_children h entries = Inr cs \<Longrightarrow>
         sum_list (map f cs) = sum_list (map f entries)"
  by (auto simp: sorted_children_def sum_list_sort_key split: option.splits)

text \<open>
  The builder: \<open>None\<close> when an ignore pattern lies outside the modelled expressions,
  \<open>Some (Inl e)\<close> when it raises \<open>e\<close>, \<open>Some (Inr el)\<close> when it returns \<open>el\<close>. The guard
  \<open>current_path.is_file()\<close> stands outside the \<open>try\<close>. Listing, sorting and the loop over
  the children stand inside it: an \<open>OSError\<close> raised there, also by the call for a child,
  ends the loop, and the directory is returned with the children attached so far.
\<close>

function (sequential)
  build_structure_tree ::
    "host \<Rightarrow> archiver \<Rightarrow> path \<Rightarrow> path \<Rightarrow> fs_node \<Rightarrow> (os_error + xml) option" and
  build_children ::
    "host \<Rightarrow> archiver \<Rightarrow> path \<Rightarrow> path \<Rightarrow> xml \<Rightarrow> (pystr \<times> fs_node) list \<Rightarrow> xml option"
where
  "build_structure_tree h a root_path current_path node =
     (case is_file node of
        Inl e \<Rightarrow> Some (Inl e)
      | Inr True \<Rightarrow>
          Some (Inr (set_attr (str ''type'') (detect_type h current_path)
                      (set_attr (str ''name'') (path_name current_path)
                        (new_element (str ''file'')))))
      | Inr False \<Rightarrow>
        (let dir_elem =
               set_attr (str ''path'') (path_str current_path)
                 (set_attr (str ''name'')
                    (if current_path \<noteq> root_path then path_name current_path else str ''/'')
                    (new_element (str ''directory'')))
         in case iterdir node of
              Inl _ \<Rightarrow> Some (Inr dir_elem)
            | Inr entries \<Rightarrow>
               (case sorted_children h entries of
                  Inl _ \<Rightarrow> Some (Inr dir_elem)
                | Inr ordered \<Rightarrow>
                   (case build_children h a root_path current_path dir_elem ordered of
                      None \<Rightarrow> None
                    | Some el \<Rightarrow> Some (Inr el)))))"
| "build_children h a root_path current_path dir_elem [] = Some dir_elem"
| "build_children h a root_path current_path dir_elem (child # rest) =
     (case should_ignore a (joinpath current_path (fst child)) of
        None \<Rightarrow> None
      | Some True \<Rightarrow> build_children h a root_path current_path dir_elem rest
      | Some False \<Rightarrow>
          (case build_structure_tree h a root_path (joinpath current_path (fst child))
                  (snd child) of
             None \<Rightarrow> None
           | Some (Inl _) \<Rightarrow> Some dir_elem
           | Some (Inr child_elem) \<Rightarrow>
               build_children h a root_path current_path (append child_elem dir_elem) rest))"
  by pat_completeness auto

termination
  apply (relation "measure (\<lambda>x. case x of
          Inl (h, a, r, c, node) \<Rightarrow> weight node
        | Inr (h, a, r, c, e, entries) \<Rightarrow> sum_list (map (\<lambda>(n, k). Suc (weight k)) entries))")
  subgoal by simp
  subgoal by (auto dest!: iterdir_Inr simp: sorted_children_Inr)
  subgoal for h a root_path current_path dir_elem child rest by (cases child) auto
  subgoal for h a root_path current_path dir_elem child rest by (cases child) auto
  subgoal for h a root_path current_path dir_elem child rest by (cases child) auto
  done

subsection \<open>Archive assembler: the files pass\<close>

definition inaccessible_element :: "path \<Rightarrow> os_error \<Rightarrow> xml" where
  "inaccessible_element file_path e =
     append (text_element (str ''note'') (str ''Access denied: '' @ error_str e))
       (set_attr (str ''type'') (str ''inaccessible'')
         (set_attr (str ''path'') (path_str file_path)
           (set_attr (str ''name'') (path_name file_path)
             (new_element (str ''file'')))))"

text \<open>
  The body of the \<open>try\<close> after the statistics are attached, for a file whose \<open>stat()\<close>
  gives \<open>st\<close>: content, or a note saying why there is none.
\<close>

definition add_content :: "host \<Rightarrow> archiver \<Rightarrow> path \<Rightarrow> file_obs \<Rightarrow> stat_result \<Rightarrow> xml \<Rightarrow> xml" where
  "add_content h a file_path obs st file_elem =
     (if st_size st \<le> max_file_size a \<and> is_text_file h a file_path obs
      then
        (case f_read obs of
           Inr content \<Rightarrow>
             (if strip content \<noteq> []
              then append (text_element (str ''content'') (clean_xml_content content))
                     (set_attr (str ''lines'') (str_int (int (count_lines content))) file_elem)
              else file_elem)
         | Inl _ \<Rightarrow>
             append (text_element (str ''note'') (str ''Content could not be read'')) file_elem)
      else
        append
          (text_element (str ''note'')
             (if st_size st > max_file_size a
              then str ''File too large ('' @ str_int (st_size st) @ str '' bytes)''
              else str ''Binary file - content skipped''))
          file_elem)"

text \<open>
  The body of the \<open>try\<close> for one file. \<open>SubElement\<close> attaches the new element to \<open>files\<close>
  before anything can fail; when \<open>file_path.stat()\<close> then raises, the handler attaches a
  second element for the same path.
\<close>

definition archive_file :: "host \<Rightarrow> archiver \<Rightarrow> xml \<Rightarrow> path \<Rightarrow> file_obs \<Rightarrow> xml" where
  "archive_file h a files_elem file_path obs =
     (let file_elem =
            set_attr (str ''type'') (detect_type h file_path)
              (set_attr (str ''path'') (path_str file_path)
                (set_attr (str ''name'') (path_name file_path)
                  (new_element (str ''file''))));
          stats = get_file_stats h obs;
          file_elem = fold (\<lambda>(key, value). set_attr key value) stats file_elem
      in case f_stat obs of
           Inr st \<Rightarrow> append (add_content h a file_path obs st file_elem) files_elem
         | Inl e \<Rightarrow> append (inaccessible_element file_path e) (append file_elem files_elem))"

text \<open>
  The loop over \<open>rglob('*')\<close>: \<open>None\<close> when an ignore pattern lies outside the modelled
  expressions, \<open>Some (Inl e)\<close> when the pass raises \<open>e\<close>, \<open>Some (Inr files)\<close> when it ends.
  The condition \<open>file_path.is_file() and not self._should_ignore(file_path)\<close> stands
  outside the \<open>try\<close> and asks \<open>is_file()\<close> first: an error it raises leaves the loop.
  \<open>is_file()\<close> answers \<open>True\<close> for a regular file only, whose observations the body reads.
\<close>

fun files_loop ::
  "host \<Rightarrow> archiver \<Rightarrow> xml \<Rightarrow> (path \<times> fs_node) list \<Rightarrow> (os_error + xml) option" where
  "files_loop h a files_elem [] = Some (Inr files_elem)"
| "files_loop h a files_elem ((file_path, node) # rest) =
     (case is_file node of
        Inl e \<Rightarrow> Some (Inl e)
      | Inr False \<Rightarrow> files_loop h a files_elem rest
      | Inr True \<Rightarrow>
          (case should_ignore a file_path of
             None \<Rightarrow> None
           | Some True \<Rightarrow> files_loop h a files_elem rest
           | Some False \<Rightarrow>
               (case node of
                  File obs \<Rightarrow> files_loop h a (archive_file h a files_elem file_path obs) rest
                | _ \<Rightarrow> files_loop h a files_elem rest)))"

subsection \<open>Archive assembler: the document\<close>

text \<open>
  What \<open>archive_codebase\<close> raises: its own two errors, or an \<open>OSError\<close> that nothing caught.
\<close>

datatype archive_error =
    FileNotFoundError pystr
  | NotADirectoryError pystr
  | Uncaught os_error

definition statistics_element :: "metadata \<Rightarrow> xml" where
  "statistics_element md =
     set_attr (str ''total_size'') (str_int (total_size md))
       (set_attr (str ''total_directories'') (str_int (int (total_directories md)))
         (set_attr (str ''total_files'') (str_int (int (total_files md)))
           (new_element (str ''statistics''))))"

definition file_types_element :: "metadata \<Rightarrow> xml" where
  "file_types_element md =
     fold (\<lambda>(file_type, count).
             append (set_attr (str ''count'') (str_int (int count))
                      (set_attr (str ''name'') file_type (new_element (str ''type'')))))
       (sort (file_types md)) (new_element (str ''file_types''))"

definition languages_element :: "metadata \<Rightarrow> xml" where
  "languages_element md =
     fold (\<lambda>lang. append (text_element (str ''language'') lang))
       (sort (languages md)) (new_element (str ''languages''))"

definition metadata_element :: "metadata \<Rightarrow> xml" where
  "metadata_element md =
     (let meta_elem = new_element (str ''metadata'');
          meta_elem = append (text_element (str ''description'')
                                (str ''Archived codebase: '' @ md_name md)) meta_elem;
          meta_elem = append (text_element (str ''source_path'') (md_path md)) meta_elem;
          meta_elem = append (statistics_element md) meta_elem;
          meta_elem = (if file_types md \<noteq> [] then append (file_types_element md) meta_elem
                       else meta_elem)
      in if languages md \<noteq> [] then append (languages_element md) meta_elem else meta_elem)"

text \<open>
  \<open>archive_codebase\<close> up to the element tree it builds; \<open>fs\<close> is what the file system
  holds at \<open>codebase_path\<close>, if anything. \<open>None\<close> is returned when an ignore pattern lies
  outside the modelled expressions. Nothing catches what the checks of the path, the
  metadata extractor, the structure builder and the files pass raise. Rendering the tree
  and writing the output file belong to the XML library and are not modelled.
\<close>

definition archive_codebase ::
  "host \<Rightarrow> archiver \<Rightarrow> path \<Rightarrow> fs_node option \<Rightarrow> (archive_error + xml) option" where
  "archive_codebase h a codebase_path fs =
     (case fs of
        None \<Rightarrow>
          Some (Inl (FileNotFoundError
                  (str ''Codebase path does not exist: '' @ path_str codebase_path)))
      | Some root \<Rightarrow>
         (case path_exists root of
            Inl e \<Rightarrow> Some (Inl (Uncaught e))
          | Inr False \<Rightarrow>
              Some (Inl (FileNotFoundError
                      (str ''Codebase path does not exist: '' @ path_str codebase_path)))
          | Inr True \<Rightarrow>
             (case is_dir root of
                Inl e \<Rightarrow> Some (Inl (Uncaught e))
              | Inr False \<Rightarrow>
                  Some (Inl (NotADirectoryError
                          (str ''Path is not a directory: '' @ path_str codebase_path)))
              | Inr True \<Rightarrow>
                 (case extract_metadata h a codebase_path root of
                    None \<Rightarrow> None
                  | Some (Inl e) \<Rightarrow> Some (Inl (Uncaught e))
                  | Some (Inr md) \<Rightarrow>
                     (let root_elem =
                            set_attr (str ''timestamp'') (md_timestamp md)
                              (set_attr (str ''version'') (str ''1.0'')
                                (set_attr (str ''name'') (md_name md)
                                  (new_element (str ''codebase''))));
                          root_elem = append (metadata_element md) root_elem
                      in case build_structure_tree h a codebase_path codebase_path root of
                           None \<Rightarrow> None
                         | Some (Inl e) \<Rightarrow> Some (Inl (Uncaught e))
                         | Some (Inr structure_tree) \<Rightarrow>
                            (let root_elem =
                                   append
                                     (append structure_tree (new_element (str ''structure'')))
                                     root_elem
                             in case files_loop h a (new_element (str ''files''))
                                       (rglob codebase_path root) of
                                  None \<Rightarrow> None
                                | Some (Inl e) \<Rightarrow> Some (Inl (Uncaught e))
                                | Some (Inr files_elem) \<Rightarrow>
                                    Some (Inr (append files_elem root_elem))))))))"

section \<open>Reference notions and sample inputs\<close>


text \<open>A file that \<open>stat()\<close> and both reads succeed on.\<close>

definition readable :: "stat_result \<Rightarrow> pystr \<Rightarrow> file_obs" where
  "readable st content = \<lparr> f_stat = Inr st, f_probe = Inr (), f_read = Inr content \<rparr>"

definition sample_stat :: "int \<Rightarrow> stat_result" where
  "sample_stat n =
     \<lparr> st_size = n, st_mtime = 1700000000, st_ctime = 1700000000, st_mode = 33188 \<rparr>"

text \<open>Sample paths below \<open>/srv\<close>.\<close>

definition srv :: path where
  "srv = Path (str ''/'') [str ''srv'']"

definition data_XYZ :: path where
  "data_XYZ = joinpath srv (str ''data.XYZ'')"

definition schema_database :: path where
  "schema_database = joinpath srv (str ''schema.database'')"

definition main_py :: path where
  "main_py = joinpath srv (str ''main.py'')"

text \<open>
  A pattern the regular-expression model reads: one without \<open>*\<close> (no expression is
  built), or one whose expression lies in the modelled fragment.
\<close>

definition pattern_supported :: "pystr \<Rightarrow> bool" where
  "pattern_supported pattern \<longleftrightarrow>
     (42 \<in> set pattern \<longrightarrow>
      re_parse (replace_char 63 (str ''.'') (replace_char 42 (str ''.*'') pattern)) \<noteq> None)"

text \<open>What the body of the files pass attaches to \<open>files\<close> for one file.\<close>

definition emitted :: "host \<Rightarrow> archiver \<Rightarrow> path \<Rightarrow> file_obs \<Rightarrow> xml list" where
  "emitted h a file_path obs =
     children (archive_file h a (new_element (str ''files'')) file_path obs)"

text \<open>A file on which \<open>stat()\<close> itself fails.\<close>

definition unstatable :: "os_error \<Rightarrow> file_obs" where
  "unstatable e = \<lparr> f_stat = Inl e, f_probe = Inl e, f_read = Inl e \<rparr>"

text \<open>A whitespace-only content, and the usual error of a refused access.\<close>

definition blank :: pystr where
  "blank = [32, 10, 9, 32]"

definition denied :: os_error where
  "denied = PermissionError (str ''Permission denied'')"

subsection \<open>Globs as the specification words them\<close>

text \<open>
  An anchored glob: \<open>*\<close> stands for any run of characters, \<open>?\<close> for any single
  character, any other character for itself, and the whole name has to match.
\<close>

fun glob_match :: "pystr \<Rightarrow> pystr \<Rightarrow> bool" where
  "glob_match [] s = (s = [])"
| "glob_match (c # cs) [] = (c = 42 \<and> glob_match cs [])"
| "glob_match (c # cs) (x # xs) =
     (if c = 42 then glob_match cs (x # xs) \<or> glob_match (c # cs) xs
      else if c = 63 then glob_match cs xs
      else c = x \<and> glob_match cs xs)"

text \<open>
  A pattern all of whose characters are \<open>*\<close>, \<open>?\<close> or without a meaning of their own in
  a regular expression (so no dot).
\<close>

definition glob_plain :: "pystr \<Rightarrow> bool" where
  "glob_plain pattern \<longleftrightarrow> list_all (\<lambda>c. c = 42 \<or> c = 63 \<or> \<not> re_special c) pattern"

text \<open>The expression text and the atom that one character of a plain pattern turns into.\<close>

definition glob_regex :: "nat \<Rightarrow> pystr" where
  "glob_regex c = (if c = 42 then str ''.*'' else if c = 63 then str ''.'' else [c])"

definition glob_atom :: "nat \<Rightarrow> atom" where
  "glob_atom c = (if c = 42 then AnyRun else if c = 63 then AnyChar else Lit c)"

definition only_pattern :: "pystr \<Rightarrow> archiver" where
  "only_pattern pattern =
     \<lparr> ignore_patterns = [pattern], max_file_size = default_max_file_size,
       include_binary = False \<rparr>"

subsection \<open>The entries of a tree, and sorted structure trees\<close>

text \<open>
  Every entry below a directory, with its path: an entry, then what is below it, then
  its later siblings. Nothing is below a directory that does not list.
\<close>

fun tree_entries :: "path \<Rightarrow> (pystr \<times> fs_node) list \<Rightarrow> (path \<times> fs_node) list" where
  "tree_entries p [] = []"
| "tree_entries p ((n, k) # rest) =
     (joinpath p n, k) #
     (case k of Dir sub \<Rightarrow> tree_entries (joinpath p n) sub | _ \<Rightarrow> []) @
     tree_entries p rest"

definition descendants :: "path \<Rightarrow> fs_node \<Rightarrow> (path \<times> fs_node) list" where
  "descendants p root = (case root of Dir entries \<Rightarrow> tree_entries p entries | _ \<Rightarrow> [])"

text \<open>An entry the filter lets through.\<close>

definition not_ignored :: "archiver \<Rightarrow> path \<times> fs_node \<Rightarrow> bool" where
  "not_ignored a item \<longleftrightarrow> should_ignore a (fst item) = Some False"

text \<open>
  An entry that is a regular file, and one that is a directory, whatever \<open>stat()\<close> says of
  it.
\<close>

fun file_entry :: "path \<times> fs_node \<Rightarrow> bool" where
  "file_entry (p, File obs) = True"
| "file_entry (p, _) = False"

fun dir_entry :: "path \<times> fs_node \<Rightarrow> bool" where
  "dir_entry (p, Dir entries) = True"
| "dir_entry (p, DeniedDir) = True"
| "dir_entry (p, _) = False"

text \<open>
  A file on which \<open>stat()\<close> succeeds, and the size it then contributes.
\<close>

fun stat_ok :: "path \<times> fs_node \<Rightarrow> bool" where
  "stat_ok (p, File obs) = (case f_stat obs of Inr st \<Rightarrow> True | Inl _ \<Rightarrow> False)"
| "stat_ok (p, _) = False"

fun stat_size :: "path \<times> fs_node \<Rightarrow> int" where
  "stat_size (p, File obs) = (case f_stat obs of Inr st \<Rightarrow> st_size st | Inl _ \<Rightarrow> 0)"
| "stat_size (p, _) = 0"

text \<open>An entry on which the guard \<open>is_file()\<close> raises.\<close>

definition guard_raises :: "path \<times> fs_node \<Rightarrow> bool" where
  "guard_raises item \<longleftrightarrow> isl (is_file (snd item))"

text \<open>
  The sort key read off an element of the structure tree, and the property that the
  children of every element are in ascending key order.
\<close>

definition elem_name :: "xml \<Rightarrow> pystr" where
  "elem_name el = (case get_attr el (str ''name'') of Some n \<Rightarrow> n | None \<Rightarrow> [])"

definition elem_key :: "host \<Rightarrow> xml \<Rightarrow> bool \<times> pystr" where
  "elem_key h el = (tag el = str ''file'', str_lower h (elem_name el))"

fun dirs_sorted :: "host \<Rightarrow> xml \<Rightarrow> bool" where
  "dirs_sorted h (Element t as tx cs) \<longleftrightarrow>
     sorted (map (elem_key h) cs) \<and> (\<forall>c \<in> set cs. dirs_sorted h c)"

text \<open>
  A project whose directory \<open>docs\<close> lists and whose entry refuses \<open>stat()\<close>, as the entries
  of a directory without search permission do; and the siblings of the ordering scenario.
\<close>

definition sample_tree :: fs_node where
  "sample_tree =
     Dir [(str ''main.py'', File (readable (sample_stat 8) (str ''print(1)''))),
          (str ''docs'', Dir [(str ''README.md'', File (unstatable denied))]),
          (str ''src'', Dir [(str ''app.py'', File (readable (sample_stat 5) (str ''x = 1'')))]),
          (str ''node_modules'',
             Dir [(str ''x.js'', File (readable (sample_stat 7) (str ''y'')))])]"

definition siblings :: fs_node where
  "siblings =
     Dir [(str ''b.txt'', File (readable (sample_stat 1) (str ''b''))),
          (str ''A'', Dir []),
          (str ''a.txt'', File (readable (sample_stat 1) (str ''a'')))]"

subsection \<open>Reading the archive document\<close>

text \<open>The elements of the \<open>files\<close> section, and an attribute of \<open>metadata/statistics\<close>.\<close>

definition files_of :: "xml \<Rightarrow> xml list" where
  "files_of doc = (case find_child (str ''files'') doc of Some f \<Rightarrow> children f | None \<Rightarrow> [])"

definition statistic :: "xml \<Rightarrow> pystr \<Rightarrow> pystr option" where
  "statistic doc k =
     (case find_child (str ''metadata'') doc of
        None \<Rightarrow> None
      | Some m \<Rightarrow>
         (case find_child (str ''statistics'') m of
            None \<Rightarrow> None
          | Some s \<Rightarrow> get_attr s k))"

text \<open>The tag and text of each child of an element.\<close>

definition child_texts :: "xml \<Rightarrow> (pystr \<times> pystr option) list" where
  "child_texts el = map (\<lambda>c. (tag c, elem_text c)) (children el)"

text \<open>The directory of the round-trip scenario, in either listing order.\<close>

definition main_entry :: "stat_result \<Rightarrow> pystr \<times> fs_node" where
  "main_entry st = (str ''main.py'', File (readable st (str ''print(1)'')))"

definition readme_entry :: "stat_result \<Rightarrow> pystr \<times> fs_node" where
  "readme_entry st = (str ''README.md'', File (readable st (str ''hi'')))"

definition venv_project :: path where
  "venv_project = Path (str ''/'') [str ''srv'', str ''venv'', str ''project'']"

section \<open>Properties\<close>

subsection \<open>Evaluation of the tables and of the defaults\<close>

lemmas table_defs =
  SPECIAL_FILES_def extension_tables_def PROGRAMMING_EXTENSIONS_def CONFIG_EXTENSIONS_def
  DOCUMENTATION_EXTENSIONS_def WEB_EXTENSIONS_def DATA_EXTENSIONS_def MEDIA_EXTENSIONS_def
  table_def str_def

lemma default_archiver_simps:
  "include_binary default_archiver = False"
  "max_file_size default_archiver = 10485760"
  "ignore_patterns default_archiver = default_ignore_patterns"
  by (simp_all add: default_archiver_def init_def default_max_file_size_def)

lemma path_joinpath [simp]:
  "path_name (joinpath p n) = n"
  "anchor (joinpath p n) = anchor p"
  "parts (joinpath p n) = parts p @ [n]"
  by (simp_all add: path_name_def joinpath_def)

lemma path_suffix_joinpath:
  "path_suffix (joinpath p n) = path_suffix (Path [] [n])"
  by (simp add: path_suffix_def path_name_def joinpath_def)

subsection \<open>Content sanitizer\<close>

lemma clean_loop_map:
  "clean_loop acc cs = acc @ map (\<lambda>c. if xml_legal c then c else replacement_char) cs"
  by (induction cs arbitrary: acc) simp_all

lemma clean_xml_content_map:
  "clean_xml_content cs = map (\<lambda>c. if xml_legal c then c else replacement_char) cs"
  by (simp add: clean_xml_content_def clean_loop_map)

lemma replacement_char_legal: "xml_legal replacement_char"
  by (simp add: xml_legal_def replacement_char_def)

text \<open>
  C2. The sanitizer keeps the code-point length of every input; a legal code point stays
  at its position, any other is replaced by U+FFFD, and the output holds legal code
  points only.
\<close>

theorem sanitize_pointwise:
  "length (clean_xml_content s) = length s \<and>
   (\<forall>i < length s.
      clean_xml_content s ! i = (if xml_legal (s ! i) then s ! i else replacement_char)) \<and>
   (\<forall>c \<in> set (clean_xml_content s). xml_legal c)"
  by (auto simp: clean_xml_content_map replacement_char_legal)

theorem sanitize_pointwise_witness:
  "clean_xml_content [0x41, 0x00, 0x0A, 0xD800, 0xFFFE, 0x1F600] =
     [0x41, 0xFFFD, 0x0A, 0xFFFD, 0xFFFD, 0x1F600] \<and>
   length (clean_xml_content [0x41, 0x00, 0x0A, 0xD800, 0xFFFE, 0x1F600]) = 6 \<and>
   list_all xml_legal (clean_xml_content [0x41, 0x00, 0x0A, 0xD800, 0xFFFE, 0x1F600])"
  using sanitize_pointwise [of "[0x41, 0x00, 0x0A, 0xD800, 0xFFFE, 0x1F600]"]
  by (simp add: clean_xml_content_def xml_legal_def replacement_char_def)

subsection \<open>Constructor defaults\<close>

text \<open>
  C10. An explicitly empty ignore-pattern list gives the built-in defaults: the archiver
  built from \<open>[]\<close> is the archiver built from no patterns at all.
\<close>

theorem init_empty_patterns_default:
  "init (Some []) m b = init None m b \<and>
   ignore_patterns (init (Some []) m b) = default_ignore_patterns"
  by (simp add: init_def)

subsection \<open>Type classifier\<close>

lemma table_values_nonempty:
  "list_all (\<lambda>kv. snd kv \<noteq> []) SPECIAL_FILES"
  "list_all (\<lambda>t. list_all (\<lambda>kv. snd kv \<noteq> []) t) extension_tables"
  by (simp_all add: table_defs)

lemma map_of_nonempty:
  "list_all (\<lambda>kv. snd kv \<noteq> []) t \<Longrightarrow> map_of t k = Some v \<Longrightarrow> v \<noteq> []"
  by (auto simp: list_all_iff dest!: map_of_SomeD)

lemma first_hit_nonempty:
  "list_all (\<lambda>t. list_all (\<lambda>kv. snd kv \<noteq> []) t) ts \<Longrightarrow> first_hit ts k = Some v \<Longrightarrow> v \<noteq> []"
  by (induction ts) (auto split: option.splits dest: map_of_nonempty)

lemma mime_category_nonempty: "mime_category m = Some v \<Longrightarrow> v \<noteq> []"
  by (auto simp: mime_category_def str_def split: if_splits)

lemma default_fallback_nonempty: "default_fallback s \<noteq> []"
  by (simp add: default_fallback_def str_def)

lemma detect_type_nonempty: "detect_type h p \<noteq> []"
  using table_values_nonempty
  by (auto simp: detect_type_def Let_def default_fallback_nonempty
      split: option.splits
      dest: map_of_nonempty first_hit_nonempty mime_category_nonempty)




lemma sample_paths:
  "path_name data_XYZ = str ''data.XYZ''"
  "path_suffix data_XYZ = str ''.XYZ''"
  "path_name schema_database = str ''schema.database''"
  "path_suffix schema_database = str ''.database''"
  "path_name main_py = str ''main.py''"
  "path_suffix main_py = str ''.py''"
  by (simp_all add: data_XYZ_def schema_database_def main_py_def path_suffix_joinpath)
    (simp_all add: path_suffix_def path_name_def rfind_dot_def str_def)

lemma plain_host_simps:
  "guess_type plain_host s = None"
  "str_lower plain_host = ascii_lower"
  "isoformat plain_host = str_int"
  by (simp_all add: plain_host_def)

lemma sample_lower:
  "ascii_lower (str ''.XYZ'') = str ''.xyz''"
  "ascii_lower (str ''.database'') = str ''.database''"
  "ascii_lower (str ''.py'') = str ''.py''"
  by (simp_all add: ascii_lower_def str_def)

lemma sample_lookups:
  "map_of SPECIAL_FILES (str ''data.XYZ'') = None"
  "first_hit extension_tables (str ''.xyz'') = None"
  "map_of SPECIAL_FILES (str ''schema.database'') = None"
  "first_hit extension_tables (str ''.database'') = None"
  "map_of SPECIAL_FILES (str ''main.py'') = None"
  "first_hit extension_tables (str ''.py'') = Some (str ''python'')"
  by (simp_all add: table_defs)

lemma sample_types:
  "detect_type plain_host schema_database = str ''unknown.database''"
  "detect_type plain_host main_py = str ''python''"
  by (simp_all add: detect_type_def sample_paths plain_host_simps sample_lower sample_lookups
      default_fallback_def)
    (simp add: str_def)

text \<open>
  C6 (amended). The classifier always returns a non-empty string. For a name that is not
  a special file, whose lower-cased extension is in no table and whose MIME type cannot
  be guessed, the result is \<open>unknown\<close> followed by the lower-cased extension when that is
  not empty, and \<open>unknown\<close> otherwise.
\<close>

theorem detect_type_total_unknown_fallback:
  "detect_type h p \<noteq> [] \<and>
   (map_of SPECIAL_FILES (path_name p) = None \<and>
    first_hit extension_tables (str_lower h (path_suffix p)) = None \<and>
    guess_type h (path_str p) = None \<longrightarrow>
    detect_type h p =
      (if str_lower h (path_suffix p) \<noteq> []
       then str ''unknown'' @ str_lower h (path_suffix p)
       else str ''unknown''))"
  by (simp add: detect_type_nonempty) (simp add: detect_type_def default_fallback_def)

theorem detect_type_total_unknown_fallback_witness:
  "detect_type plain_host data_XYZ = str ''unknown.xyz''"
  using detect_type_total_unknown_fallback [of plain_host data_XYZ]
  by (simp add: sample_paths plain_host_simps sample_lower sample_lookups) (simp add: str_def)

text \<open>
  C6 as stated fails: \<open>data.XYZ\<close> is no special file, its extension is in no table and
  no MIME type is guessed, yet the tag is not \<open>unknown\<close> followed by \<open>.XYZ\<close> as it
  appears in the name.
\<close>

theorem detect_type_literal_extension_counterexample:
  "map_of SPECIAL_FILES (path_name data_XYZ) = None \<and>
   first_hit extension_tables (str_lower plain_host (path_suffix data_XYZ)) = None \<and>
   guess_type plain_host (path_str data_XYZ) = None \<and>
   path_suffix data_XYZ = str ''.XYZ'' \<and>
   detect_type plain_host data_XYZ \<noteq> str ''unknown'' @ path_suffix data_XYZ"
  by (simp add: sample_paths plain_host_simps sample_lower sample_lookups detect_type_def
        default_fallback_def)
    (simp add: str_def)

subsection \<open>Text eligibility\<close>








subsection \<open>The ignore filter never fails on supported patterns\<close>

lemma re_match_anchored:
  "re_match (str ''^'' @ r @ str ''$'') name = map_option (\<lambda>atoms. match_atoms atoms name) (re_parse r)"
  by (simp add: re_match_def str_def)

lemma match_pattern_supported:
  "pattern_supported pat \<Longrightarrow> match_pattern name pat \<noteq> None"
  by (auto simp: match_pattern_def pattern_supported_def re_match_anchored Let_def)

lemma ignore_loop_supported:
  "\<forall>pat \<in> set pats. pattern_supported pat \<Longrightarrow> ignore_loop s name pats \<noteq> None"
  by (induction pats) (auto split: option.splits bool.splits dest: match_pattern_supported)

lemma should_ignore_supported:
  "\<forall>pat \<in> set (ignore_patterns a). pattern_supported pat \<Longrightarrow> \<exists>b. should_ignore a p = Some b"
  using ignore_loop_supported [of "ignore_patterns a"] by (auto simp: should_ignore_def)

subsection \<open>Element trees and the files pass\<close>

lemma append_simps [simp]:
  "tag (append c e) = tag e"
  "attrib (append c e) = attrib e"
  "elem_text (append c e) = elem_text e"
  "children (append c e) = children e @ [c]"
  by (cases e; simp)+

lemma set_attr_simps [simp]:
  "tag (set_attr k v e) = tag e"
  "attrib (set_attr k v e) = AList.update k v (attrib e)"
  "elem_text (set_attr k v e) = elem_text e"
  "children (set_attr k v e) = children e"
  by (cases e; simp)+

lemma set_text_simps [simp]:
  "tag (set_text s e) = tag e"
  "attrib (set_text s e) = attrib e"
  "elem_text (set_text s e) = Some s"
  "children (set_text s e) = children e"
  by (cases e; simp)+

lemma new_element_simps [simp]:
  "tag (new_element t) = t"
  "attrib (new_element t) = []"
  "elem_text (new_element t) = None"
  "children (new_element t) = []"
  by (simp_all add: new_element_def)

lemma fold_set_attr_simps [simp]:
  "tag (fold (\<lambda>(key, value). set_attr key value) kvs e) = tag e"
  "elem_text (fold (\<lambda>(key, value). set_attr key value) kvs e) = elem_text e"
  "children (fold (\<lambda>(key, value). set_attr key value) kvs e) = children e"
  by (induction kvs arbitrary: e; simp add: case_prod_beta)+

lemma archive_file_shape:
  "tag (archive_file h a fe p obs) = tag fe"
  "attrib (archive_file h a fe p obs) = attrib fe"
  "elem_text (archive_file h a fe p obs) = elem_text fe"
  "children (archive_file h a fe p obs) = children fe @ emitted h a p obs"
  by (simp_all add: archive_file_def emitted_def Let_def split: sum.splits)

lemma stat_test_simps [simp]:
  "f_stat obs = Inr st \<Longrightarrow> stat_test obs yes = Inr yes"
  "f_stat obs = Inl e \<Longrightarrow> \<not> pathlib_ignores e \<Longrightarrow> stat_test obs yes = Inl e"
  "f_stat obs = Inl e \<Longrightarrow> pathlib_ignores e \<Longrightarrow> stat_test obs yes = Inr False"
  by (simp_all add: stat_test_def)

lemma stat_test_sample:
  "stat_test (readable st content) yes = Inr yes"
  "stat_test (unstatable denied) yes = Inl denied"
  by (simp_all add: readable_def unstatable_def stat_test_def pathlib_ignores_def denied_def)

lemma default_patterns_supported:
  "\<forall>pat \<in> set (ignore_patterns default_archiver). pattern_supported pat"
  by (simp add: default_archiver_simps default_ignore_patterns_def pattern_supported_def
      replace_char_def re_special_def str_def)

subsection \<open>Whitespace-only files\<close>

lemma strip_empty_iff: "strip s = [] \<longleftrightarrow> (\<forall>c \<in> set s. is_space c)"
proof
  assume "strip s = []"
  then have d: "dropWhile is_space (rev (dropWhile is_space s)) = []"
    by (simp add: strip_def)
  show "\<forall>c \<in> set s. is_space c"
  proof (cases "dropWhile is_space s")
    case Nil
    then show ?thesis by (simp add: dropWhile_eq_Nil_conv)
  next
    case (Cons x xs)
    then have "\<not> is_space x"
      by (metis hd_dropWhile list.sel(1) list.distinct(1))
    moreover from d Cons have "is_space x"
      by (simp add: dropWhile_eq_Nil_conv)
    ultimately show ?thesis by simp
  qed
next
  assume "\<forall>c \<in> set s. is_space c"
  then show "strip s = []"
    by (auto simp: strip_def dest: set_dropWhileD)
qed

lemma get_attr_set_attr:
  "get_attr (set_attr k v e) k' = (if k' = k then Some v else get_attr e k')"
  by (simp add: get_attr_def update_conv')

lemma get_attr_append [simp]: "get_attr (append c e) k = get_attr e k"
  by (simp add: get_attr_def)

lemma get_attr_new [simp]: "get_attr (new_element t) k = None"
  by (simp add: get_attr_def)

lemma get_attr_fold:
  "get_attr (fold (\<lambda>(key, value). set_attr key value) kvs e) k =
     (case map_of (rev kvs) k of Some v \<Rightarrow> Some v | None \<Rightarrow> get_attr e k)"
  by (induction kvs arbitrary: e) (auto simp: get_attr_set_attr split: option.splits)

lemma stats_keys:
  "map_of (rev (get_file_stats h obs)) (str ''lines'') = None"
  "map_of (rev (get_file_stats h obs)) (str ''path'') = None"
  "map_of (rev (get_file_stats h obs)) (str ''type'') = None"
  "map_of (rev (get_file_stats h obs)) (str ''name'') = None"
  by (simp_all add: get_file_stats_def str_def split: sum.splits)

text \<open>
  C9. A file that is not ignored, within the size limit, text-eligible and readable, and
  whose content is empty or whitespace only, gets a \<open>file\<close> element with no child at all
  (neither \<open>content\<close> nor \<open>note\<close>) and no \<open>lines\<close> attribute.
\<close>

theorem whitespace_only_file_bare_element:
  assumes "should_ignore a p = Some False"
    and "f_stat obs = Inr st" and "st_size st \<le> max_file_size a"
    and "is_text_file h a p obs"
    and "f_read obs = Inr content" and "\<forall>c \<in> set content. is_space c"
  shows "\<exists>el. files_loop h a (new_element (str ''files'')) [(p, File obs)] =
                 Some (Inr (Element (str ''files'') [] None [el])) \<and>
              tag el = str ''file'' \<and>
              get_attr el (str ''path'') = Some (path_str p) \<and>
              children el = [] \<and>
              get_attr el (str ''lines'') = None"
proof -
  from assms(6) have "strip content = []" by (simp add: strip_empty_iff)
  with assms(1-5) show ?thesis
    by (simp add: stat_test_def archive_file_def add_content_def Let_def new_element_def
        get_attr_fold stats_keys get_attr_set_attr)
      (simp add: str_def get_attr_def)
qed

lemma re_parse_sample:
  "re_parse (str ''..*.pyc'') = Some [AnyChar, AnyRun, AnyChar, Lit 112, Lit 121, Lit 99]"
  by (simp add: str_def re_special_def)

lemma main_py_not_ignored: "should_ignore default_archiver main_py = Some False"
  by (simp add: should_ignore_def default_archiver_simps default_ignore_patterns_def
      main_py_def srv_def path_str_def joinpath_def path_name_def
      match_pattern_def re_match_def replace_char_def re_special_def
      str_in_def str_def sublist_code)

theorem whitespace_only_file_bare_element_witness:
  "\<exists>el. files_loop plain_host default_archiver (new_element (str ''files''))
           [(main_py, File (readable (sample_stat 4) blank))] =
           Some (Inr (Element (str ''files'') [] None [el])) \<and>
        children el = [] \<and> get_attr el (str ''lines'') = None"
proof -
  have 1: "should_ignore default_archiver main_py = Some False"
    by (rule main_py_not_ignored)
  have 2: "f_stat (readable (sample_stat 4) blank) = Inr (sample_stat 4)"
    and 3: "st_size (sample_stat 4) \<le> max_file_size default_archiver"
    and 5: "f_read (readable (sample_stat 4) blank) = Inr blank"
    by (simp_all add: readable_def sample_stat_def default_archiver_simps)
  have 4: "is_text_file plain_host default_archiver main_py (readable (sample_stat 4) blank)"
    by (simp add: is_text_file_def rejected_as_binary_def sample_types readable_def)
      (simp add: binary_types_def str_in_def str_def sublist_code)
  have 6: "\<forall>c \<in> set blank. is_space c"
    by (simp add: blank_def is_space_def)
  from whitespace_only_file_bare_element [OF 1 2 3 4 5 6] show ?thesis
    by blast
qed

subsection \<open>Ignore filter\<close>

lemma replace_char_concat:
  "replace_char c r (concat (map f s)) = concat (map (\<lambda>x. replace_char c r (f x)) s)"
  by (induction s) (simp_all add: replace_char_def)

lemma replace_char_as_concat:
  "replace_char c r s = concat (map (\<lambda>x. if x = c then r else [x]) s)"
  by (simp add: replace_char_def)

lemma to_regex:
  "replace_char 63 (str ''.'') (replace_char 42 (str ''.*'') pat) = concat (map glob_regex pat)"
proof -
  have "replace_char 63 (str ''.'') (if x = 42 then str ''.*'' else [x]) = glob_regex x" for x
    by (simp add: replace_char_def glob_regex_def str_def)
  then show ?thesis
    by (simp add: replace_char_as_concat [of 42] replace_char_concat)
qed

lemma glob_regex_simps:
  "glob_regex 42 = [46, 42]"
  "glob_regex 63 = [46]"
  "c \<noteq> 42 \<Longrightarrow> c \<noteq> 63 \<Longrightarrow> glob_regex c = [c]"
  by (simp_all add: glob_regex_def str_def)

lemma glob_atom_simps:
  "glob_atom 42 = AnyRun"
  "glob_atom 63 = AnyChar"
  "c \<noteq> 42 \<Longrightarrow> c \<noteq> 63 \<Longrightarrow> glob_atom c = Lit c"
  by (simp_all add: glob_atom_def)

lemma glob_regex_nonempty [simp]: "glob_regex c \<noteq> []"
  by (simp add: glob_regex_def str_def)

lemma concat_glob_regex_empty [simp]: "(\<forall>c \<in> set cs. glob_regex c = []) \<longleftrightarrow> cs = []"
  by (cases cs) auto

lemma glob_regex_first:
  "c = 42 \<or> c = 63 \<or> \<not> re_special c \<Longrightarrow> \<exists>d ds. glob_regex c @ rest = d # ds \<and> d \<noteq> 42"
  by (auto simp: glob_regex_def str_def re_special_def)

lemma re_parse_plain:
  "glob_plain pat \<Longrightarrow> re_parse (concat (map glob_regex pat)) = Some (map glob_atom pat)"
proof (induction pat)
  case Nil
  show ?case by simp
next
  case (Cons c cs)
  then have c: "c = 42 \<or> c = 63 \<or> \<not> re_special c" and cs: "glob_plain cs"
    by (simp_all add: glob_plain_def)
  let ?rest = "concat (map glob_regex cs)"
  have ih: "re_parse ?rest = Some (map glob_atom cs)"
    using Cons.IH cs by simp
  have hd: "?rest = [] \<or> (\<exists>d ds. ?rest = d # ds \<and> d \<noteq> 42)"
  proof (cases cs)
    case Nil
    then show ?thesis by simp
  next
    case (Cons c' cs')
    with cs have "c' = 42 \<or> c' = 63 \<or> \<not> re_special c'"
      by (simp add: glob_plain_def)
    from glob_regex_first [OF this] Cons show ?thesis by simp
  qed
  consider (star) "c = 42" | (quest) "c = 63" | (lit) "c \<noteq> 42" "c \<noteq> 63" "\<not> re_special c"
    using c by blast
  then show ?case
  proof cases
    case star
    then show ?thesis using ih by (simp add: glob_regex_simps glob_atom_simps)
  next
    case quest
    then show ?thesis using ih hd
      by (auto simp: glob_regex_simps glob_atom_simps)
  next
    case lit
    then have "c \<noteq> 46" by (auto simp: re_special_def str_def)
    with lit show ?thesis using ih hd
      by (auto simp: glob_regex_simps glob_atom_simps)
  qed
qed

lemma match_atoms_glob:
  "10 \<notin> set s \<Longrightarrow> match_atoms (map glob_atom pat) s = glob_match pat s"
proof (induction pat s rule: glob_match.induct)
  case (1 s)
  then show ?case by auto
next
  case (2 c cs)
  then show ?case
    by (cases "c = 42"; cases "c = 63") (simp_all add: glob_atom_simps)
next
  case (3 c cs x xs)
  then show ?case
    by (cases "c = 42"; cases "c = 63") (auto simp: glob_atom_simps)
qed

lemma match_pattern_plain:
  assumes "42 \<in> set pat" "glob_plain pat" "10 \<notin> set name"
  shows "match_pattern name pat = Some (glob_match pat name)"
  using assms
  by (simp add: match_pattern_def to_regex re_match_anchored re_parse_plain match_atoms_glob)

lemma match_pattern_literal:
  "42 \<notin> set pat \<Longrightarrow> match_pattern name pat = Some (name = pat)"
  by (simp add: match_pattern_def)

lemma ignore_loop_plain:
  assumes "\<forall>pat \<in> set pats. if 42 \<in> set pat then glob_plain pat else 63 \<notin> set pat"
    and "10 \<notin> set name"
  shows "ignore_loop s name pats =
     Some (\<exists>pat \<in> set pats. str_in pat s \<or>
             (if 42 \<in> set pat then glob_match pat name else name = pat))"
  using assms(1)
proof (induction pats)
  case Nil
  show ?case by simp
next
  case (Cons pat pats)
  then have ih: "ignore_loop s name pats =
     Some (\<exists>pat \<in> set pats. str_in pat s \<or>
             (if 42 \<in> set pat then glob_match pat name else name = pat))"
    by simp
  show ?case
  proof (cases "42 \<in> set pat")
    case True
    with Cons.prems have "glob_plain pat" by simp
    from match_pattern_plain [OF True this assms(2)] ih True show ?thesis
      by (cases "glob_match pat name") simp_all
  next
    case False
    from match_pattern_literal [OF False, of name] ih False show ?thesis
      by (cases "name = pat") simp_all
  qed
qed

text \<open>
  C3 (amended). Let every configured pattern that contains \<open>*\<close> consist of \<open>*\<close>, \<open>?\<close> and
  characters with no meaning of their own in regular expressions, let no other pattern
  contain \<open>?\<close>, and let the path's final segment hold no newline. Then the filter ignores
  the path exactly when some pattern occurs in the full path string, or matches the final
  segment: as an anchored glob (\<open>*\<close> any run of characters, \<open>?\<close> any single character)
  when the pattern contains \<open>*\<close>, by equality otherwise.
\<close>

theorem ignore_filter_substring_or_glob:
  assumes "\<forall>pat \<in> set (ignore_patterns a).
             if 42 \<in> set pat then glob_plain pat else 63 \<notin> set pat"
    and "10 \<notin> set (path_name p)"
  shows "should_ignore a p =
     Some (\<exists>pat \<in> set (ignore_patterns a).
             str_in pat (path_str p) \<or>
             (if 42 \<in> set pat then glob_match pat (path_name p) else path_name p = pat))"
  unfolding should_ignore_def by (rule ignore_loop_plain [OF assms])

lemma only_pattern_simps [simp]: "ignore_patterns (only_pattern pat) = [pat]"
  by (simp add: only_pattern_def)

lemma srv_paths:
  "path_str (joinpath srv n) = str ''/srv/'' @ n"
  "path_str (joinpath (joinpath srv d) n) = str ''/srv/'' @ d @ str ''/'' @ n"
  by (simp_all add: srv_def joinpath_def path_str_def str_def)

theorem ignore_filter_substring_or_glob_witness:
  "should_ignore (only_pattern (str ''test_*'')) (joinpath srv (str ''test_a'')) = Some True \<and>
   should_ignore (only_pattern (str ''test_*'')) (joinpath srv (str ''readme'')) = Some False"
proof -
  have pl: "\<forall>pat \<in> set (ignore_patterns (only_pattern (str ''test_*''))).
              if 42 \<in> set pat then glob_plain pat else 63 \<notin> set pat"
    by (simp add: glob_plain_def re_special_def str_def)
  have n1: "10 \<notin> set (path_name (joinpath srv (str ''test_a'')))"
    and n2: "10 \<notin> set (path_name (joinpath srv (str ''readme'')))"
    by (simp_all add: str_def)
  show ?thesis
    unfolding ignore_filter_substring_or_glob [OF pl n1]
      ignore_filter_substring_or_glob [OF pl n2]
    by (simp add: srv_paths str_in_def) (simp add: str_def sublist_code)
qed

text \<open>
  C3 as stated fails: the pattern \<open>test_*\<close> does not match the final segment \<open>readme\<close> as a
  glob, yet the path is ignored, because the pattern occurs in the path string (in the
  name of a parent directory).
\<close>

theorem ignore_filter_final_segment_only_counterexample:
  "should_ignore (only_pattern (str ''test_*''))
     (joinpath (joinpath srv (str ''test_*.d'')) (str ''readme'')) = Some True \<and>
   \<not> glob_match (str ''test_*'')
       (path_name (joinpath (joinpath srv (str ''test_*.d'')) (str ''readme'')))"
  by (simp add: should_ignore_def srv_paths str_in_def) (simp add: str_def sublist_code)

text \<open>
  Outside the amended claim: a pattern with \<open>?\<close> and no \<open>*\<close> is compared by equality, and
  a dot in a pattern with \<open>*\<close> stands for any character.
\<close>

lemma question_mark_without_star_is_literal:
  "glob_match (str ''a?c'') (str ''abc'') \<and>
   should_ignore (only_pattern (str ''a?c'')) (joinpath srv (str ''abc'')) = Some False"
  by (simp add: should_ignore_def srv_paths str_in_def match_pattern_def)
    (simp add: str_def sublist_code)

lemma dot_in_pattern_matches_any_character:
  "\<not> glob_match (str ''*.log'') (str ''applog'') \<and>
   should_ignore (only_pattern (str ''*.log'')) (joinpath srv (str ''applog'')) = Some True"
  by (simp add: should_ignore_def srv_paths str_in_def match_pattern_def re_match_anchored
      replace_char_def)
    (simp add: str_def sublist_code re_special_def)

subsection \<open>Metadata extractor\<close>

lemma select_from_simps [simp]:
  "select_from p [] = []"
  "select_from p ((n, k) # rest) = (joinpath p n, k) # select_from p rest"
  by (simp_all add: select_from_def)

lemma rglob_sum:
  fixes f :: "path \<times> fs_node \<Rightarrow> 'a::comm_monoid_add"
  shows "sum_list (map f (select_from p es)) + sum_list (map f (below p es)) =
         sum_list (map f (tree_entries p es))"
proof (induction p es rule: below.induct)
  case (1 p)
  show ?case by simp
next
  case (2 p n k rest)
  show ?case
  proof (cases k)
    case (Dir sub)
    from 2(1) [OF Dir] 2(2) show ?thesis
      by (simp add: Dir "2.IH"(1) [OF Dir, symmetric] "2.IH"(2) [symmetric] ac_simps)
  qed (use 2 in \<open>simp_all add: add.assoc\<close>)
qed

lemma length_filter_sum:
  "length (filter Q xs) = sum_list (map (\<lambda>x. if Q x then 1 else 0) xs)"
  by (induction xs) simp_all

lemma rglob_descendants_sum:
  fixes f :: "path \<times> fs_node \<Rightarrow> 'a::comm_monoid_add"
  shows "sum_list (map f (rglob p root)) = sum_list (map f (descendants p root))"
  by (cases root) (simp_all add: rglob_def descendants_def rglob_sum)

lemma rglob_descendants_count:
  "length (filter Q (rglob p root)) = length (filter Q (descendants p root))"
  by (simp add: length_filter_sum rglob_descendants_sum)

lemma rglob_descendants_filter_sum:
  fixes f :: "path \<times> fs_node \<Rightarrow> int"
  shows "sum_list (map f (filter Q (rglob p root))) = sum_list (map f (filter Q (descendants p root)))"
proof -
  have "sum_list (map f (filter Q xs)) = sum_list (map (\<lambda>x. if Q x then f x else 0) xs)" for xs
    by (induction xs) simp_all
  then show ?thesis
    by (simp add: rglob_descendants_sum)
qed

lemma bump_sum: "sum_list (map snd (bump t d)) = sum_list (map snd d) + 1"
proof -
  have "sum_list (map snd (AList.update t (v + 1) d)) =
        (case map_of d t of None \<Rightarrow> sum_list (map snd d) + v + 1
         | Some c \<Rightarrow> sum_list (map snd d) - c + v + 1) \<and>
        (case map_of d t of None \<Rightarrow> True | Some c \<Rightarrow> c \<le> sum_list (map snd d))" for v
    by (induction d) (auto split: option.splits)
  from this [of "case map_of d t of None \<Rightarrow> 0 | Some c \<Rightarrow> c"] show ?thesis
    by (auto simp: bump_def split: option.splits)
qed

text \<open>
  An entry on which the guard raises ends the extractor; on any other entry the round
  counts a regular file, or a directory.
\<close>

lemma count_item_raises:
  "is_file (snd item) = Inl e \<Longrightarrow> count_item h md item = Inl e"
  by (simp add: count_item_def)

lemma extract_loop_raises:
  "should_ignore a (fst item) = Some False \<Longrightarrow> is_file (snd item) = Inl e \<Longrightarrow>
   extract_loop h a md (item # rest) = Some (Inl e)"
  by (simp add: count_item_raises)

lemma count_item_effect:
  assumes "\<not> guard_raises item"
  shows "\<exists>md'. count_item h md item = Inr md' \<and>
    total_files md' = total_files md + (if file_entry item \<and> stat_ok item then 1 else 0) \<and>
    total_directories md' = total_directories md + (if dir_entry item then 1 else 0) \<and>
    total_size md' = total_size md + stat_size item \<and>
    sum_list (map snd (file_types md')) =
      sum_list (map snd (file_types md)) + (if stat_ok item then 1 else 0)"
proof -
  obtain p node where item: "item = (p, node)" by (cases item)
  show ?thesis
  proof (cases node)
    case (File obs)
    with assms item show ?thesis
      by (cases "f_stat obs")
        (auto simp: guard_raises_def count_item_def count_file_def stat_test_def Let_def bump_sum
           split: if_splits)
  qed (simp_all add: item count_item_def)
qed

lemma extract_loop_counts:
  assumes "\<forall>pat \<in> set (ignore_patterns a). pattern_supported pat"
    and "\<forall>i \<in> set items. not_ignored a i \<longrightarrow> \<not> guard_raises i"
  shows "\<exists>md'. extract_loop h a md items = Some (Inr md') \<and>
    total_files md' =
      total_files md +
      length (filter (\<lambda>i. file_entry i \<and> stat_ok i \<and> not_ignored a i) items) \<and>
    total_directories md' =
      total_directories md + length (filter (\<lambda>i. dir_entry i \<and> not_ignored a i) items) \<and>
    total_size md' = total_size md + sum_list (map stat_size (filter (not_ignored a) items)) \<and>
    sum_list (map snd (file_types md')) =
      sum_list (map snd (file_types md)) +
      length (filter (\<lambda>i. stat_ok i \<and> not_ignored a i) items)"
  using assms(2)
proof (induction items arbitrary: md)
  case Nil
  show ?case by simp
next
  case (Cons item items)
  from should_ignore_supported [OF assms(1)] obtain b
    where b: "should_ignore a (fst item) = Some b" by blast
  show ?case
  proof (cases b)
    case True
    with b have ni: "\<not> not_ignored a item"
      by (simp add: not_ignored_def)
    with True b Cons.IH [of md] Cons.prems show ?thesis
      by simp
  next
    case False
    with b have ni: "not_ignored a item"
      by (simp add: not_ignored_def)
    with Cons.prems have "\<not> guard_raises item"
      by simp
    from count_item_effect [OF this, of h md] obtain md1
      where md1: "count_item h md item = Inr md1"
        "total_files md1 = total_files md + (if file_entry item \<and> stat_ok item then 1 else 0)"
        "total_directories md1 = total_directories md + (if dir_entry item then 1 else 0)"
        "total_size md1 = total_size md + stat_size item"
        "sum_list (map snd (file_types md1)) =
           sum_list (map snd (file_types md)) + (if stat_ok item then 1 else 0)"
      by blast
    from Cons.IH [of md1] Cons.prems obtain md'
      where "extract_loop h a md1 items = Some (Inr md')"
        "total_files md' =
          total_files md1 +
          length (filter (\<lambda>i. file_entry i \<and> stat_ok i \<and> not_ignored a i) items)"
        "total_directories md' =
          total_directories md1 +
          length (filter (\<lambda>i. dir_entry i \<and> not_ignored a i) items)"
        "total_size md' =
          total_size md1 + sum_list (map stat_size (filter (not_ignored a) items))"
        "sum_list (map snd (file_types md')) =
          sum_list (map snd (file_types md1)) +
          length (filter (\<lambda>i. stat_ok i \<and> not_ignored a i) items)"
      by auto
    with md1 b False ni show ?thesis
      by simp
  qed
qed

lemma sample_tree_walk:
  "rglob srv sample_tree =
     [(joinpath srv (str ''main.py''), File (readable (sample_stat 8) (str ''print(1)''))),
      (joinpath srv (str ''docs''), Dir [(str ''README.md'', File (unstatable denied))]),
      (joinpath srv (str ''src''),
         Dir [(str ''app.py'', File (readable (sample_stat 5) (str ''x = 1'')))]),
      (joinpath srv (str ''node_modules''),
         Dir [(str ''x.js'', File (readable (sample_stat 7) (str ''y'')))]),
      (joinpath (joinpath srv (str ''docs'')) (str ''README.md''), File (unstatable denied)),
      (joinpath (joinpath srv (str ''src'')) (str ''app.py''),
         File (readable (sample_stat 5) (str ''x = 1''))),
      (joinpath (joinpath srv (str ''node_modules'')) (str ''x.js''),
         File (readable (sample_stat 7) (str ''y'')))]"
  by (simp add: rglob_def sample_tree_def)

lemma sample_tree_descendants:
  "descendants srv sample_tree =
     [(joinpath srv (str ''main.py''), File (readable (sample_stat 8) (str ''print(1)''))),
      (joinpath srv (str ''docs''), Dir [(str ''README.md'', File (unstatable denied))]),
      (joinpath (joinpath srv (str ''docs'')) (str ''README.md''), File (unstatable denied)),
      (joinpath srv (str ''src''),
         Dir [(str ''app.py'', File (readable (sample_stat 5) (str ''x = 1'')))]),
      (joinpath (joinpath srv (str ''src'')) (str ''app.py''),
         File (readable (sample_stat 5) (str ''x = 1''))),
      (joinpath srv (str ''node_modules''),
         Dir [(str ''x.js'', File (readable (sample_stat 7) (str ''y'')))]),
      (joinpath (joinpath srv (str ''node_modules'')) (str ''x.js''),
         File (readable (sample_stat 7) (str ''y'')))]"
  by (simp add: descendants_def sample_tree_def)

lemma sample_tree_ignored:
  "should_ignore default_archiver (joinpath srv (str ''main.py'')) = Some False"
  "should_ignore default_archiver (joinpath srv (str ''docs'')) = Some False"
  "should_ignore default_archiver (joinpath (joinpath srv (str ''docs'')) (str ''README.md'')) = Some False"
  "should_ignore default_archiver (joinpath srv (str ''src'')) = Some False"
  "should_ignore default_archiver (joinpath (joinpath srv (str ''src'')) (str ''app.py'')) = Some False"
  "should_ignore default_archiver (joinpath srv (str ''node_modules'')) = Some True"
  "should_ignore default_archiver (joinpath (joinpath srv (str ''node_modules'')) (str ''x.js'')) = Some True"
  by (simp_all add: should_ignore_def default_archiver_simps default_ignore_patterns_def
      srv_def path_str_def joinpath_def path_name_def
      match_pattern_def re_match_def replace_char_def re_special_def
      str_in_def str_def sublist_code)

lemma sample_tree_extract:
  "extract_metadata plain_host default_archiver srv sample_tree = Some (Inl denied)"
  by (simp add: extract_metadata_def sample_tree_walk sample_tree_ignored count_item_def
      stat_test_sample)

text \<open>
  C7 fails in the code. Below \<open>/srv\<close> the sample project holds three files that the default
  filter lets through (\<open>main.py\<close>, \<open>docs/README.md\<close>, \<open>src/app.py\<close>) and two such directories
  (\<open>docs\<close>, \<open>src\<close>); \<open>stat()\<close> on \<open>docs/README.md\<close> raises \<open>PermissionError\<close>. The extractor
  does not return the totals 3 and 2: the guard \<open>item.is_file()\<close>, which calls \<open>stat()\<close>
  outside the \<open>try\<close>, raises that error and the extractor raises it.
\<close>

theorem metadata_extractor_raises_on_stat_error:
  "length (filter (\<lambda>i. file_entry i \<and> not_ignored default_archiver i)
             (descendants srv sample_tree)) = 3 \<and>
   length (filter (\<lambda>i. dir_entry i \<and> not_ignored default_archiver i)
             (descendants srv sample_tree)) = 2 \<and>
   extract_metadata plain_host default_archiver srv sample_tree = Some (Inl denied)"
proof (intro conjI)
  show "length (filter (\<lambda>i. file_entry i \<and> not_ignored default_archiver i)
             (descendants srv sample_tree)) = 3"
    by (simp add: sample_tree_descendants not_ignored_def sample_tree_ignored)
  show "length (filter (\<lambda>i. dir_entry i \<and> not_ignored default_archiver i)
             (descendants srv sample_tree)) = 2"
    by (simp add: sample_tree_descendants not_ignored_def sample_tree_ignored)
  show "extract_metadata plain_host default_archiver srv sample_tree = Some (Inl denied)"
    by (rule sample_tree_extract)
qed

text \<open>
  Where no guard raises, the totals are those of the tree: over supported patterns, and
  when \<open>is_file()\<close> raises on no entry that the filter lets through, the extractor returns;
  \<open>total_files\<close> is the number of such files on which \<open>stat()\<close> succeeds (a file on which
  it fails with an error that \<open>is_file()\<close> swallows is not counted), and
  \<open>total_directories\<close> the number of such directories.
\<close>

lemma metadata_counts_without_raise:
  assumes "\<forall>pat \<in> set (ignore_patterns a). pattern_supported pat"
    and "\<forall>i \<in> set (rglob codebase_path root). not_ignored a i \<longrightarrow> \<not> guard_raises i"
  shows "\<exists>md. extract_metadata h a codebase_path root = Some (Inr md) \<and>
    total_files md =
      length (filter (\<lambda>i. file_entry i \<and> stat_ok i \<and> not_ignored a i)
                (descendants codebase_path root)) \<and>
    total_directories md =
      length (filter (\<lambda>i. dir_entry i \<and> not_ignored a i) (descendants codebase_path root)) \<and>
    total_size md =
      sum_list (map stat_size (filter (not_ignored a) (descendants codebase_path root)))"
proof -
  let ?md0 = "\<lparr> md_name = path_name codebase_path,
                md_path = path_str (absolute h codebase_path),
                md_timestamp = now_isoformat h,
                total_files = 0, total_directories = 0, total_size = 0,
                file_types = [], languages = [] \<rparr>"
  from extract_loop_counts [OF assms, of h ?md0]
  show ?thesis
    unfolding extract_metadata_def
    by (simp add: rglob_descendants_count rglob_descendants_filter_sum) blast
qed

subsection \<open>Errors in the files pass\<close>

text \<open>
  A file on which \<open>stat()\<close> fails never reaches the body of the \<open>try\<close>: the guard
  \<open>file_path.is_file()\<close> ends the pass with the error, or, for an error that \<open>is_file()\<close>
  swallows, skips the file without an element.
\<close>

lemma files_loop_stat_error:
  assumes "f_stat obs = Inl e"
  shows "files_loop h a files_elem ((p, File obs) # rest) =
     (if pathlib_ignores e then files_loop h a files_elem rest else Some (Inl e))"
  using assms by (simp add: stat_test_def)

text \<open>
  A file on which \<open>stat()\<close> succeeds and the read fails, after the size and eligibility
  checks, keeps its element and its type, with a note.
\<close>

lemma file_elem_attrs:
  "get_attr (fold (\<lambda>(key, value). set_attr key value) (get_file_stats h obs)
      (set_attr (str ''type'') ty
        (set_attr (str ''path'') ps
          (set_attr (str ''name'') nm (new_element (str ''file'')))))) (str ''path'') = Some ps"
  "get_attr (fold (\<lambda>(key, value). set_attr key value) (get_file_stats h obs)
      (set_attr (str ''type'') ty
        (set_attr (str ''path'') ps
          (set_attr (str ''name'') nm (new_element (str ''file'')))))) (str ''type'') = Some ty"
  by (simp_all add: get_attr_fold stats_keys get_attr_set_attr) (simp_all add: str_def)

lemma emitted_read_error:
  assumes "f_stat obs = Inr st" "st_size st \<le> max_file_size a" "is_text_file h a p obs"
    "f_read obs = Inl e"
  shows "\<exists>el. emitted h a p obs = [el] \<and>
            get_attr el (str ''path'') = Some (path_str p) \<and>
            get_attr el (str ''type'') = Some (detect_type h p) \<and>
            children el = [text_element (str ''note'') (str ''Content could not be read'')]"
  using assms
  by (simp add: emitted_def archive_file_def Let_def add_content_def file_elem_attrs)

lemma sample_tree_files_pass:
  "files_loop plain_host default_archiver files_elem (rglob srv sample_tree) = Some (Inl denied)"
  by (simp add: sample_tree_walk sample_tree_ignored stat_test_sample)

text \<open>
  C5 fails in the code. In the sample project \<open>docs/README.md\<close> is not ignored and \<open>stat()\<close>
  on it raises \<open>PermissionError\<close>. The files pass over the walk of the project gives no
  \<open>files\<close> section: the guard \<open>file_path.is_file()\<close>, which calls \<open>stat()\<close> outside the
  \<open>try\<close>, raises that error, the pass raises it and so does the run. There is no
  \<open>inaccessible\<close> element, the element of \<open>main.py\<close> built before is lost, and \<open>src/app.py\<close>,
  later in the walk, is never reached.
\<close>

theorem files_pass_raises_on_stat_error:
  "should_ignore default_archiver (joinpath (joinpath srv (str ''docs'')) (str ''README.md'')) =
     Some False \<and>
   f_stat (unstatable denied) = Inl denied \<and>
   files_loop plain_host default_archiver (new_element (str ''files'')) (rglob srv sample_tree) =
     Some (Inl denied) \<and>
   archive_codebase plain_host default_archiver srv (Some sample_tree) =
     Some (Inl (Uncaught denied))"
proof (intro conjI)
  show "should_ignore default_archiver
      (joinpath (joinpath srv (str ''docs'')) (str ''README.md'')) = Some False"
    by (rule sample_tree_ignored)
  show "f_stat (unstatable denied) = Inl denied"
    by (simp add: unstatable_def)
  show "files_loop plain_host default_archiver (new_element (str ''files''))
      (rglob srv sample_tree) = Some (Inl denied)"
    by (rule sample_tree_files_pass)
  show "archive_codebase plain_host default_archiver srv (Some sample_tree) =
      Some (Inl (Uncaught denied))"
  proof -
    have "path_exists sample_tree = Inr True" "is_dir sample_tree = Inr True"
      by (simp_all add: sample_tree_def)
    then show ?thesis
      by (simp add: archive_codebase_def sample_tree_extract)
  qed
qed

subsection \<open>Structure builder\<close>

declare build_structure_tree.simps [simp del]

lemma dirs_sortedI:
  "sorted (map (elem_key h) (children el)) \<Longrightarrow> \<forall>c \<in> set (children el). dirs_sorted h c \<Longrightarrow>
   dirs_sorted h el"
  by (cases el) simp

lemma dirs_sorted_leaf: "children el = [] \<Longrightarrow> dirs_sorted h el"
  by (cases el) simp

lemma dirs_sortedD:
  "dirs_sorted h el \<Longrightarrow>
   sorted (map (elem_key h) (children el)) \<and> (\<forall>c \<in> set (children el). dirs_sorted h c)"
  by (cases el) simp

lemma xml_eqI:
  "tag x = tag y \<Longrightarrow> attrib x = attrib y \<Longrightarrow> elem_text x = elem_text y \<Longrightarrow>
   children x = children y \<Longrightarrow> x = y"
  by (cases x; cases y) simp

lemma elem_key_cong:
  "tag x = tag y \<Longrightarrow> attrib x = attrib y \<Longrightarrow> elem_key h x = elem_key h y"
  by (simp add: elem_key_def elem_name_def get_attr_def)

lemma file_elem_key:
  "elem_key h (set_attr (str ''type'') ty (set_attr (str ''name'') nm (new_element (str ''file''))))
     = (True, str_lower h nm)"
  by (simp add: elem_key_def elem_name_def get_attr_set_attr) (simp add: str_def)

lemma dir_elem_key:
  "elem_key h (set_attr (str ''path'') ps (set_attr (str ''name'') nm
      (new_element (str ''directory'')))) = (False, str_lower h nm)"
  by (simp add: elem_key_def elem_name_def get_attr_set_attr) (simp add: str_def)

lemma joinpath_neq_root:
  "length (parts root) \<le> length (parts cur) \<Longrightarrow> joinpath cur n \<noteq> root"
  by (auto simp: joinpath_def)

lemma joinpath_length:
  "length (parts root) \<le> length (parts cur) \<Longrightarrow>
   length (parts root) \<le> length (parts (joinpath cur n))"
  by simp

lemma sorted_children_sorted:
  assumes "sorted_children h entries = Inr ordered"
  shows "ordered = sort_key (\<lambda>child. projr (child_key h child)) entries"
    and "\<forall>child \<in> set ordered. \<not> isl (child_key h child)"
    and "sorted (map (\<lambda>child. projr (child_key h child)) ordered)"
proof -
  from assms show o: "ordered = sort_key (\<lambda>child. projr (child_key h child)) entries"
    by (simp add: sorted_children_def split: option.splits)
  from assms have "List.find (\<lambda>child. isl (child_key h child)) entries = None"
    by (simp add: sorted_children_def split: option.splits)
  then show "\<forall>child \<in> set ordered. \<not> isl (child_key h child)"
    by (auto simp: o find_None_iff)
  show "sorted (map (\<lambda>child. projr (child_key h child)) ordered)"
    by (simp add: o)
qed

lemma child_key_raises: "is_file (snd child) = Inl e \<Longrightarrow> isl (child_key h child)"
  by (simp add: child_key_def)

lemma build_invariant:
  "length (parts root_path) \<le> length (parts current_path) \<longrightarrow>
     (\<forall>r. build_structure_tree h a root_path current_path node = Some r \<longrightarrow>
        (case r of
           Inl e \<Rightarrow> is_file node = Inl e
         | Inr el \<Rightarrow>
             dirs_sorted h el \<and>
             (current_path \<noteq> root_path \<longrightarrow>
                child_key h (path_name current_path, node) = Inr (elem_key h el))))"
  and
  "length (parts root_path) \<le> length (parts current_path) \<longrightarrow>
   (\<forall>child \<in> set entries. \<not> isl (child_key h child)) \<longrightarrow>
     (\<forall>e'. build_children h a root_path current_path dir_elem entries = Some e' \<longrightarrow>
        (\<exists>cs. tag e' = tag dir_elem \<and> attrib e' = attrib dir_elem \<and>
              elem_text e' = elem_text dir_elem \<and> children e' = children dir_elem @ cs \<and>
              (\<forall>c \<in> set cs. dirs_sorted h c) \<and>
              map (elem_key h) cs =
                map (\<lambda>child. projr (child_key h child))
                  (filter (\<lambda>ch. should_ignore a (joinpath current_path (fst ch)) = Some False)
                     entries)))"
proof (induction h a root_path current_path node and h a root_path current_path dir_elem entries
    rule: build_structure_tree_build_children.induct)
  case (1 h a root_path current_path node)
  show ?case
  proof (intro impI allI)
    fix r
    assume len: "length (parts root_path) \<le> length (parts current_path)"
      and b: "build_structure_tree h a root_path current_path node = Some r"
    define d where "d = set_attr (str ''path'') (path_str current_path)
                 (set_attr (str ''name'')
                    (if current_path \<noteq> root_path then path_name current_path else str ''/'')
                    (new_element (str ''directory'')))"
    have dk: "current_path \<noteq> root_path \<Longrightarrow>
        elem_key h d = (False, str_lower h (path_name current_path))"
      by (simp add: d_def dir_elem_key)
    have dc: "children d = []" by (simp add: d_def)
    show "case r of
           Inl e \<Rightarrow> is_file node = Inl e
         | Inr el \<Rightarrow>
             dirs_sorted h el \<and>
             (current_path \<noteq> root_path \<longrightarrow>
                child_key h (path_name current_path, node) = Inr (elem_key h el))"
    proof (cases "is_file node")
      case (Inl e)
      with b show ?thesis
        by (auto simp: build_structure_tree.simps)
    next
      case (Inr isf)
      show ?thesis
      proof (cases isf)
        case True
        with b Inr
        have "r = Inr (set_attr (str ''type'') (detect_type h current_path)
                  (set_attr (str ''name'') (path_name current_path)
                    (new_element (str ''file''))))"
          by (auto simp: build_structure_tree.simps)
        with True Inr show ?thesis
          by (simp add: dirs_sorted_leaf file_elem_key child_key_def)
      next
        case False
        with Inr have isf: "is_file node = Inr False" by simp
        have leaf: "r = Inr d \<Longrightarrow> ?thesis"
          using isf dk dc by (simp add: dirs_sorted_leaf child_key_def)
        show ?thesis
        proof (cases "iterdir node")
          case (Inl e)
          with b isf have "r = Inr d"
            by (auto simp: build_structure_tree.simps d_def)
          then show ?thesis by (rule leaf)
        next
          case es: (Inr es)
          show ?thesis
          proof (cases "sorted_children h es")
            case (Inl e)
            with b isf es have "r = Inr d"
              by (auto simp: build_structure_tree.simps d_def)
            then show ?thesis by (rule leaf)
          next
            case sc: (Inr ordered)
            with b isf es obtain el where r: "r = Inr el"
              and bc: "build_children h a root_path current_path d ordered = Some el"
              by (auto simp: build_structure_tree.simps d_def Let_def split: option.splits)
            from sorted_children_sorted [OF sc]
            have ok: "\<forall>child \<in> set ordered. \<not> isl (child_key h child)"
              and srt: "sorted (map (\<lambda>child. projr (child_key h child)) ordered)"
              by simp_all
            from 1 [OF isf refl d_def es sc] len ok bc obtain cs
              where el: "tag el = tag d" "attrib el = attrib d" "children el = children d @ cs"
                and cs: "\<forall>c \<in> set cs. dirs_sorted h c"
                and keys: "map (elem_key h) cs = map (\<lambda>child. projr (child_key h child))
                  (filter (\<lambda>ch. should_ignore a (joinpath current_path (fst ch)) = Some False)
                     ordered)"
              by blast
            from el dc have ch: "children el = cs" by simp
            from srt have "sorted (map (elem_key h) cs)"
              unfolding keys by (rule sorted_filter)
            with cs ch have "dirs_sorted h el"
              by (intro dirs_sortedI) simp_all
            moreover have "elem_key h el = elem_key h d"
              using el by (intro elem_key_cong) simp_all
            ultimately show ?thesis
              using r isf dk by (simp add: child_key_def)
          qed
        qed
      qed
    qed
  qed
next
  case (2 h a root_path current_path dir_elem)
  show ?case by simp
next
  case (3 h a root_path current_path dir_elem child rest)
  show ?case
  proof (intro impI allI)
    fix e'
    assume len: "length (parts root_path) \<le> length (parts current_path)"
      and ok: "\<forall>child \<in> set (child # rest). \<not> isl (child_key h child)"
      and b: "build_children h a root_path current_path dir_elem (child # rest) = Some e'"
    let ?cp = "joinpath current_path (fst child)"
    let ?keep = "\<lambda>ch. should_ignore a (joinpath current_path (fst ch)) = Some False"
    from ok have okc: "\<not> isl (child_key h child)"
      and okr: "\<forall>child \<in> set rest. \<not> isl (child_key h child)" by simp_all
    from b obtain ign where ign: "should_ignore a ?cp = Some ign"
      by (cases "should_ignore a ?cp") simp_all
    show "\<exists>cs. tag e' = tag dir_elem \<and> attrib e' = attrib dir_elem \<and>
              elem_text e' = elem_text dir_elem \<and> children e' = children dir_elem @ cs \<and>
              (\<forall>c \<in> set cs. dirs_sorted h c) \<and>
              map (elem_key h) cs =
                map (\<lambda>child. projr (child_key h child)) (filter ?keep (child # rest))"
    proof (cases ign)
      case True
      then have t: "ign = True" by simp
      with b ign have "build_children h a root_path current_path dir_elem rest = Some e'"
        by simp
      with 3(1) [OF ign t] len okr ign t show ?thesis
        by simp
    next
      case False
      then have f: "ign = False" by simp
      from b ign f obtain r where r: "build_structure_tree h a root_path ?cp (snd child) = Some r"
        by (cases "build_structure_tree h a root_path ?cp (snd child)") simp_all
      from 3(2) [OF ign f] joinpath_length [OF len] r
      have inv: "case r of
           Inl e \<Rightarrow> is_file (snd child) = Inl e
         | Inr el \<Rightarrow>
             dirs_sorted h el \<and>
             (?cp \<noteq> root_path \<longrightarrow> child_key h (path_name ?cp, snd child) = Inr (elem_key h el))"
        by blast
      show ?thesis
      proof (cases r)
        case (Inl e)
        with inv okc child_key_raises [of child e h] show ?thesis
          by simp
      next
        case (Inr ce)
        with inv joinpath_neq_root [OF len, of "fst child"]
        have ces: "dirs_sorted h ce" and cek: "child_key h child = Inr (elem_key h ce)"
          by simp_all
        from r Inr have ce: "build_structure_tree h a root_path ?cp (snd child) = Some r"
          and ri: "r = Inr ce" by simp_all
        from b ign f ce ri
        have rest: "build_children h a root_path current_path (append ce dir_elem) rest = Some e'"
          by simp
        from 3(3) [OF ign f ce ri] len okr rest obtain cs
          where st: "tag e' = tag dir_elem" "attrib e' = attrib dir_elem"
              "elem_text e' = elem_text dir_elem"
            and ch: "children e' = (children dir_elem @ [ce]) @ cs"
            and cs: "\<forall>c \<in> set cs. dirs_sorted h c"
            and keys: "map (elem_key h) cs =
                map (\<lambda>child. projr (child_key h child)) (filter ?keep rest)"
          by auto
        show ?thesis
        proof (intro exI [of _ "ce # cs"] conjI)
          show "children e' = children dir_elem @ ce # cs" using ch by simp
          show "\<forall>c \<in> set (ce # cs). dirs_sorted h c" using ces cs by simp
          show "map (elem_key h) (ce # cs) =
              map (\<lambda>child. projr (child_key h child)) (filter ?keep (child # rest))"
            using ign f cek keys by simp
        qed (use st in simp_all)
      qed
    qed
  qed
qed

lemma build_total:
  "(\<forall>pat \<in> set (ignore_patterns a). pattern_supported pat) \<longrightarrow>
     (\<exists>r. build_structure_tree h a root_path current_path node = Some r)"
  and
  "(\<forall>pat \<in> set (ignore_patterns a). pattern_supported pat) \<longrightarrow>
     (\<exists>e'. build_children h a root_path current_path dir_elem entries = Some e')"
proof (induction h a root_path current_path node and h a root_path current_path dir_elem entries
    rule: build_structure_tree_build_children.induct)
  case (1 h a root_path current_path node)
  show ?case
  proof
    assume sup: "\<forall>pat \<in> set (ignore_patterns a). pattern_supported pat"
    show "\<exists>r. build_structure_tree h a root_path current_path node = Some r"
    proof (cases "is_file node")
      case (Inl e)
      then show ?thesis by (simp add: build_structure_tree.simps)
    next
      case (Inr isf)
      show ?thesis
      proof (cases isf)
        case True
        with Inr show ?thesis by (simp add: build_structure_tree.simps)
      next
        case False
        with Inr have isf: "is_file node = Inr False" by simp
        show ?thesis
        proof (cases "iterdir node")
          case (Inl e)
          with isf show ?thesis by (simp add: build_structure_tree.simps)
        next
          case es: (Inr es)
          show ?thesis
          proof (cases "sorted_children h es")
            case (Inl e)
            with isf es show ?thesis by (simp add: build_structure_tree.simps)
          next
            case sc: (Inr ordered)
            from 1 [OF isf refl refl es sc] sup isf es sc show ?thesis
              by (auto simp: build_structure_tree.simps Let_def)
          qed
        qed
      qed
    qed
  qed
next
  case (2 h a root_path current_path dir_elem)
  show ?case by simp
next
  case (3 h a root_path current_path dir_elem child rest)
  show ?case
  proof
    assume sup: "\<forall>pat \<in> set (ignore_patterns a). pattern_supported pat"
    from should_ignore_supported [OF sup] obtain ign
      where ign: "should_ignore a (joinpath current_path (fst child)) = Some ign" by blast
    show "\<exists>e'. build_children h a root_path current_path dir_elem (child # rest) = Some e'"
    proof (cases ign)
      case True
      then have t: "ign = True" by simp
      from 3(1) [OF ign t] sup ign t show ?thesis by simp
    next
      case False
      then have f: "ign = False" by simp
      from 3(2) [OF ign f] sup obtain r
        where r: "build_structure_tree h a root_path (joinpath current_path (fst child))
                     (snd child) = Some r" by blast
      show ?thesis
      proof (cases r)
        case (Inl e)
        with ign f r show ?thesis by simp
      next
        case (Inr ce)
        from 3(3) [OF ign f r Inr] sup ign f r Inr show ?thesis by simp
      qed
    qed
  qed
qed

lemma build_directory_returns:
  assumes "\<forall>pat \<in> set (ignore_patterns a). pattern_supported pat"
  shows "\<exists>el. build_structure_tree h a root_path current_path (Dir entries) = Some (Inr el)"
proof -
  from build_total(1) [of a h root_path current_path "Dir entries"] assms obtain r
    where r: "build_structure_tree h a root_path current_path (Dir entries) = Some r" by blast
  then show ?thesis
    by (cases r)
      (auto simp: build_structure_tree.simps Let_def split: sum.splits option.splits)
qed

lemma sorted_key_groups:
  fixes n :: "'a \<Rightarrow> 'b::linorder"
  shows "sorted (map (\<lambda>x. (b x, n x)) xs) \<Longrightarrow>
    \<exists>ds fs. xs = ds @ fs \<and> (\<forall>d \<in> set ds. \<not> b d) \<and> (\<forall>f \<in> set fs. b f) \<and>
            sorted (map n ds) \<and> sorted (map n fs)"
proof (induction xs)
  case Nil
  show ?case by simp
next
  case (Cons x xs)
  then have le: "\<forall>y \<in> set xs. (b x, n x) \<le> (b y, n y)" and "sorted (map (\<lambda>x. (b x, n x)) xs)"
    by simp_all
  with Cons.IH obtain ds fs where xs: "xs = ds @ fs"
    and ds: "\<forall>d \<in> set ds. \<not> b d" and fs: "\<forall>f \<in> set fs. b f"
    and sd: "sorted (map n ds)" and sf: "sorted (map n fs)"
    by blast
  show ?case
  proof (cases "b x")
    case True
    with le have all: "\<forall>y \<in> set xs. b y \<and> n x \<le> n y"
      by (auto simp: less_eq_prod_def)
    with xs ds have "ds = []" by (cases ds) auto
    with xs all fs sf True show ?thesis
      by (intro exI [of _ "[]"] exI [of _ "x # fs"]) auto
  next
    case False
    with le ds xs have "\<forall>d \<in> set ds. n x \<le> n d"
      by (auto simp: less_eq_prod_def)
    with xs ds fs sd sf False show ?thesis
      by (intro exI [of _ "x # ds"] exI [of _ fs]) auto
  qed
qed

lemma siblings_not_ignored:
  "should_ignore default_archiver (joinpath srv (str ''b.txt'')) = Some False"
  "should_ignore default_archiver (joinpath srv (str ''A'')) = Some False"
  "should_ignore default_archiver (joinpath srv (str ''a.txt'')) = Some False"
  by (simp_all add: should_ignore_def default_archiver_simps default_ignore_patterns_def
      srv_def path_str_def joinpath_def path_name_def
      match_pattern_def re_match_def replace_char_def re_special_def
      str_in_def str_def sublist_code)

lemma build_structure_tree_node:
  "build_structure_tree h a r c (File (readable st content)) =
     Some (Inr (set_attr (str ''type'') (detect_type h c)
                 (set_attr (str ''name'') (path_name c) (new_element (str ''file'')))))"
  "build_structure_tree h a r c (Dir es) =
     (let dir_elem =
            set_attr (str ''path'') (path_str c)
              (set_attr (str ''name'') (if c \<noteq> r then path_name c else str ''/'')
                 (new_element (str ''directory'')))
      in case sorted_children h es of
           Inl e \<Rightarrow> Some (Inr dir_elem)
         | Inr ordered \<Rightarrow> map_option Inr (build_children h a r c dir_elem ordered))"
  by (simp_all add: build_structure_tree.simps stat_test_sample Let_def
      split: option.splits sum.splits)

lemma elem_key_fun:
  "elem_key h = (\<lambda>c. (tag c = str ''file'', str_lower h (elem_name c)))"
  by (rule ext) (simp add: elem_key_def)

lemma siblings_structure:
  "\<exists>el. build_structure_tree plain_host default_archiver srv srv siblings = Some (Inr el) \<and>
      map elem_name (children el) = [str ''A'', str ''a.txt'', str ''b.txt'']"
  by (simp add: siblings_def build_structure_tree_node sorted_children_def child_key_def
      stat_test_sample plain_host_simps ascii_lower_def
      siblings_not_ignored [unfolded str_def, simplified]
      elem_name_def get_attr_set_attr joinpath_neq_root str_def)

text \<open>
  C8. Over supported patterns the builder ends, for every tree: it raises only what the
  guard \<open>is_file()\<close> raises on the node it is called for, and otherwise returns a tree in
  which the children of every element are in ascending order of the key (is-file,
  lower-cased name). A list in that order is the directories followed by the files, each
  group in ascending order of the lower-cased name. The siblings \<open>b.txt\<close>, \<open>A\<close> (a
  directory) and \<open>a.txt\<close> come out as \<open>A\<close>, \<open>a.txt\<close>, \<open>b.txt\<close>.
\<close>

theorem structure_children_sorted:
  assumes "\<forall>pat \<in> set (ignore_patterns a). pattern_supported pat"
  shows "(\<exists>r. build_structure_tree h a root_path root_path node = Some r \<and>
            (case r of Inl e \<Rightarrow> is_file node = Inl e | Inr el \<Rightarrow> dirs_sorted h el)) \<and>
    (\<forall>cs. sorted (map (elem_key h) cs) \<longrightarrow>
       (\<exists>ds fs. cs = ds @ fs \<and>
          (\<forall>d \<in> set ds. tag d \<noteq> str ''file'') \<and> (\<forall>f \<in> set fs. tag f = str ''file'') \<and>
          sorted (map (\<lambda>c. str_lower h (elem_name c)) ds) \<and>
          sorted (map (\<lambda>c. str_lower h (elem_name c)) fs))) \<and>
    (\<exists>el. build_structure_tree plain_host default_archiver srv srv siblings = Some (Inr el) \<and>
          map elem_name (children el) = [str ''A'', str ''a.txt'', str ''b.txt''])"
proof (intro conjI allI impI)
  from build_total(1) [of a h root_path root_path node] assms obtain r
    where r: "build_structure_tree h a root_path root_path node = Some r" by blast
  with build_invariant(1) [of root_path root_path h a node]
  have "case r of Inl e \<Rightarrow> is_file node = Inl e | Inr el \<Rightarrow> dirs_sorted h el"
    by (auto split: sum.splits)
  with r show "\<exists>r. build_structure_tree h a root_path root_path node = Some r \<and>
      (case r of Inl e \<Rightarrow> is_file node = Inl e | Inr el \<Rightarrow> dirs_sorted h el)" by blast
next
  fix cs
  assume "sorted (map (elem_key h) cs)"
  then have "sorted (map (\<lambda>c. (tag c = str ''file'', str_lower h (elem_name c))) cs)"
    by (simp add: elem_key_fun)
  from sorted_key_groups [OF this]
  show "\<exists>ds fs. cs = ds @ fs \<and>
          (\<forall>d \<in> set ds. tag d \<noteq> str ''file'') \<and> (\<forall>f \<in> set fs. tag f = str ''file'') \<and>
          sorted (map (\<lambda>c. str_lower h (elem_name c)) ds) \<and>
          sorted (map (\<lambda>c. str_lower h (elem_name c)) fs)" .
next
  show "\<exists>el. build_structure_tree plain_host default_archiver srv srv siblings = Some (Inr el) \<and>
      map elem_name (children el) = [str ''A'', str ''a.txt'', str ''b.txt'']"
    by (rule siblings_structure)
qed

theorem structure_children_sorted_witness:
  "\<exists>el. build_structure_tree plain_host default_archiver srv srv siblings = Some (Inr el) \<and>
      dirs_sorted plain_host el \<and>
      map elem_name (children el) = [str ''A'', str ''a.txt'', str ''b.txt'']"
  using structure_children_sorted [OF default_patterns_supported, of plain_host srv siblings]
  by auto

subsection \<open>Round trip of a small directory\<close>

lemma ignore_loop_none:
  "\<forall>pat \<in> set pats. \<not> str_in pat s \<and> match_pattern name pat = Some False \<Longrightarrow>
   ignore_loop s name pats = Some False"
  by (induction pats) simp_all

lemma default_patterns_names:
  "\<forall>pat \<in> set default_ignore_patterns. match_pattern (str ''main.py'') pat = Some False"
  "\<forall>pat \<in> set default_ignore_patterns. match_pattern (str ''README.md'') pat = Some False"
  by (simp_all add: default_ignore_patterns_def match_pattern_def re_match_def replace_char_def
      re_special_def str_def)

lemma scenario_not_ignored:
  assumes "\<forall>pat \<in> set default_ignore_patterns. \<not> str_in pat (path_str (joinpath root n))"
    and "n = str ''main.py'' \<or> n = str ''README.md''"
  shows "should_ignore default_archiver (joinpath root n) = Some False"
  unfolding should_ignore_def default_archiver_simps
  using assms default_patterns_names
  by (intro ignore_loop_none) auto

lemma scenario_types:
  "str_lower h (str ''.py'') = str ''.py'' \<Longrightarrow>
   detect_type h (joinpath root (str ''main.py'')) = str ''python''"
  "str_lower h (str ''.md'') = str ''.md'' \<Longrightarrow>
   detect_type h (joinpath root (str ''README.md'')) = str ''markdown''"
proof -
  have s: "path_suffix (Path [] [str ''main.py'']) = str ''.py''"
    "path_suffix (Path [] [str ''README.md'']) = str ''.md''"
    by (simp_all add: path_suffix_def path_name_def rfind_dot_def str_def)
  have t: "map_of SPECIAL_FILES (str ''main.py'') = None"
    "first_hit extension_tables (str ''.py'') = Some (str ''python'')"
    "map_of SPECIAL_FILES (str ''README.md'') = None"
    "first_hit extension_tables (str ''.md'') = Some (str ''markdown'')"
    by (simp_all add: table_defs)
  show "str_lower h (str ''.py'') = str ''.py'' \<Longrightarrow>
   detect_type h (joinpath root (str ''main.py'')) = str ''python''"
    by (simp add: detect_type_def path_suffix_joinpath s t)
  show "str_lower h (str ''.md'') = str ''.md'' \<Longrightarrow>
   detect_type h (joinpath root (str ''README.md'')) = str ''markdown''"
    by (simp add: detect_type_def path_suffix_joinpath s t)
qed

lemma scenario_text:
  "\<not> list_ex (\<lambda>bt. str_in bt (str ''python'')) binary_types"
  "\<not> list_ex (\<lambda>bt. str_in bt (str ''markdown'')) binary_types"
  "strip (str ''print(1)'') \<noteq> []"
  "strip (str ''hi'') \<noteq> []"
  "clean_xml_content (str ''print(1)'') = str ''print(1)''"
  "clean_xml_content (str ''hi'') = str ''hi''"
  by (simp_all add: binary_types_def str_in_def sublist_code strip_def is_space_def
      clean_xml_content_map xml_legal_def str_def)

lemma emitted_content:
  assumes "detect_type h p = ty" "\<not> list_ex (\<lambda>bt. str_in bt ty) binary_types"
    and "st_size st \<le> max_file_size a" "strip content \<noteq> []"
  shows "\<exists>el. emitted h a p (readable st content) = [el] \<and> tag el = str ''file'' \<and>
     elem_name el = path_name p \<and>
     child_texts el = [(str ''content'', Some (clean_xml_content content))]"
  using assms
  by (simp add: emitted_def archive_file_def add_content_def is_text_file_def
      rejected_as_binary_def readable_def Let_def child_texts_def text_element_def
      elem_name_def get_attr_fold get_attr_set_attr stats_keys)
    (simp add: str_def)

lemma metadata_element_shape:
  "tag (metadata_element md) = str ''metadata''"
  "find_child (str ''statistics'') (metadata_element md) = Some (statistics_element md)"
proof -
  have t: "tag (statistics_element md) = str ''statistics''"
    by (simp add: statistics_element_def)
  show "tag (metadata_element md) = str ''metadata''"
    by (simp add: metadata_element_def Let_def)
  show "find_child (str ''statistics'') (metadata_element md) = Some (statistics_element md)"
    by (simp add: metadata_element_def Let_def find_child_def text_element_def t)
      (simp add: str_def)
qed

lemma statistics_total_files:
  "get_attr (statistics_element md) (str ''total_files'') = Some (str_int (int (total_files md)))"
  by (simp add: statistics_element_def get_attr_set_attr) (simp add: str_def)

lemma two_files_archive:
  assumes sup: "\<forall>pat \<in> set (ignore_patterns a). pattern_supported pat"
    and keep: "should_ignore a (joinpath root n1) = Some False"
      "should_ignore a (joinpath root n2) = Some False"
    and st: "f_stat o1 = Inr s1" "f_stat o2 = Inr s2"
    and em: "emitted h a (joinpath root n1) o1 = [el1]" "emitted h a (joinpath root n2) o2 = [el2]"
  shows "\<exists>doc. archive_codebase h a root (Some (Dir [(n1, File o1), (n2, File o2)])) =
                  Some (Inr doc) \<and>
               find_child (str ''files'') doc \<noteq> None \<and>
               files_of doc = [el1, el2] \<and>
               statistic doc (str ''total_files'') = Some (str ''2'')"
proof -
  let ?root = "Dir [(n1, File o1), (n2, File o2)]"
  let ?items = "[(joinpath root n1, File o1), (joinpath root n2, File o2)]"
  have items: "rglob root ?root = ?items"
    by (simp add: rglob_def)
  let ?md0 = "\<lparr> md_name = path_name root, md_path = path_str (absolute h root),
                md_timestamp = now_isoformat h,
                total_files = 0, total_directories = 0, total_size = 0,
                file_types = [], languages = [] \<rparr>"
  have ok: "\<forall>i \<in> set ?items. not_ignored a i \<longrightarrow> \<not> guard_raises i"
    using st by (simp add: guard_raises_def stat_test_def)
  from extract_loop_counts [OF sup ok, of h ?md0] keep st
  obtain md where md: "extract_metadata h a root ?root = Some (Inr md)" and n: "total_files md = 2"
    unfolding extract_metadata_def items by (auto simp: not_ignored_def)
  from build_directory_returns [OF sup, of h root root]
  obtain tree where tree: "build_structure_tree h a root root ?root = Some (Inr tree)"
    by blast
  define fe where "fe = archive_file h a
      (archive_file h a (new_element (str ''files'')) (joinpath root n1) o1) (joinpath root n2) o2"
  have fl: "files_loop h a (new_element (str ''files'')) (rglob root ?root) = Some (Inr fe)"
    unfolding items fe_def using keep st by simp
  have fe: "tag fe = str ''files''" "children fe = [el1, el2]"
    by (simp_all add: fe_def archive_file_shape em)
  define doc where "doc = append fe
      (append (append tree (new_element (str ''structure'')))
        (append (metadata_element md)
          (set_attr (str ''timestamp'') (md_timestamp md)
            (set_attr (str ''version'') (str ''1.0'')
              (set_attr (str ''name'') (md_name md) (new_element (str ''codebase'')))))))"
  have a: "archive_codebase h a root (Some ?root) = Some (Inr doc)"
    by (simp add: archive_codebase_def md tree fl doc_def Let_def)
  have ch: "children doc = [metadata_element md, append tree (new_element (str ''structure'')), fe]"
    by (simp add: doc_def)
  have neq: "str ''metadata'' \<noteq> str ''files''" "str ''structure'' \<noteq> str ''files''"
    by (simp_all add: str_def)
  have f: "find_child (str ''files'') doc = Some fe"
    by (simp add: find_child_def ch metadata_element_shape fe neq)
  have m: "find_child (str ''metadata'') doc = Some (metadata_element md)"
    by (simp add: find_child_def ch metadata_element_shape)
  have two: "str_int (int (total_files md)) = str ''2''"
    by (simp add: n str_int_def str_def)
  from a f m two fe show ?thesis
    by (simp add: files_of_def statistic_def metadata_element_shape statistics_total_files)
qed

lemma two_files_ignored:
  assumes sup: "\<forall>pat \<in> set (ignore_patterns a). pattern_supported pat"
    and drop: "should_ignore a (joinpath root n1) = Some True"
      "should_ignore a (joinpath root n2) = Some True"
    and st: "f_stat o1 = Inr s1" "f_stat o2 = Inr s2"
  shows "\<exists>doc. archive_codebase h a root (Some (Dir [(n1, File o1), (n2, File o2)])) =
                  Some (Inr doc) \<and>
               find_child (str ''files'') doc \<noteq> None \<and>
               files_of doc = [] \<and>
               statistic doc (str ''total_files'') = Some (str ''0'')"
proof -
  let ?root = "Dir [(n1, File o1), (n2, File o2)]"
  let ?items = "[(joinpath root n1, File o1), (joinpath root n2, File o2)]"
  have items: "rglob root ?root = ?items"
    by (simp add: rglob_def)
  let ?md0 = "\<lparr> md_name = path_name root, md_path = path_str (absolute h root),
                md_timestamp = now_isoformat h,
                total_files = 0, total_directories = 0, total_size = 0,
                file_types = [], languages = [] \<rparr>"
  have ok: "\<forall>i \<in> set ?items. not_ignored a i \<longrightarrow> \<not> guard_raises i"
    using st by (simp add: guard_raises_def stat_test_def)
  from extract_loop_counts [OF sup ok, of h ?md0] drop
  obtain md where md: "extract_metadata h a root ?root = Some (Inr md)" and n: "total_files md = 0"
    unfolding extract_metadata_def items by (auto simp: not_ignored_def)
  from build_directory_returns [OF sup, of h root root]
  obtain tree where tree: "build_structure_tree h a root root ?root = Some (Inr tree)"
    by blast
  define fe where "fe = new_element (str ''files'')"
  have fl: "files_loop h a (new_element (str ''files'')) (rglob root ?root) = Some (Inr fe)"
    unfolding items fe_def using drop st by simp
  have fe: "tag fe = str ''files''" "children fe = []"
    by (simp_all add: fe_def)
  define doc where "doc = append fe
      (append (append tree (new_element (str ''structure'')))
        (append (metadata_element md)
          (set_attr (str ''timestamp'') (md_timestamp md)
            (set_attr (str ''version'') (str ''1.0'')
              (set_attr (str ''name'') (md_name md) (new_element (str ''codebase'')))))))"
  have a: "archive_codebase h a root (Some ?root) = Some (Inr doc)"
    by (simp add: archive_codebase_def md tree fl doc_def Let_def)
  have ch: "children doc = [metadata_element md, append tree (new_element (str ''structure'')), fe]"
    by (simp add: doc_def)
  have neq: "str ''metadata'' \<noteq> str ''files''" "str ''structure'' \<noteq> str ''files''"
    by (simp_all add: str_def)
  have f: "find_child (str ''files'') doc = Some fe"
    by (simp add: find_child_def ch metadata_element_shape fe neq)
  have m: "find_child (str ''metadata'') doc = Some (metadata_element md)"
    by (simp add: find_child_def ch metadata_element_shape)
  have zero: "str_int (int (total_files md)) = str ''0''"
    by (simp add: n str_int_def str_def)
  from a f m zero fe show ?thesis
    by (simp add: files_of_def statistic_def metadata_element_shape statistics_total_files)
qed

text \<open>
  C1 (amended). Let a directory hold exactly \<open>main.py\<close> (content \<open>print(1)\<close>, 8 bytes) and
  \<open>README.md\<close> (content \<open>hi\<close>, 2 bytes), listed in either order, and let no default ignore
  pattern occur in the path string of either file (lower-casing leaves \<open>.py\<close> and
  \<open>.md\<close> as they are). Archiving it with the default configuration gives a document
  whose \<open>files\<close> section holds exactly two \<open>file\<close> elements, one per file, each with a
  single \<open>content\<close> child whose text is the file's content, and whose statistics carry
  \<open>total_files="2"\<close>.
\<close>

theorem round_trip_two_files:
  assumes lower: "str_lower h (str ''.py'') = str ''.py''" "str_lower h (str ''.md'') = str ''.md''"
    and clear:
      "\<forall>pat \<in> set default_ignore_patterns.
         \<not> str_in pat (path_str (joinpath root (str ''main.py'')))"
      "\<forall>pat \<in> set default_ignore_patterns.
         \<not> str_in pat (path_str (joinpath root (str ''README.md'')))"
    and sizes: "st_size st1 = 8" "st_size st2 = 2"
    and listing: "entries = [main_entry st1, readme_entry st2] \<or>
                  entries = [readme_entry st2, main_entry st1]"
  shows "\<exists>doc. archive_codebase h default_archiver root (Some (Dir entries)) = Some (Inr doc) \<and>
     find_child (str ''files'') doc \<noteq> None \<and>
     length (files_of doc) = 2 \<and>
     (\<forall>el \<in> set (files_of doc). tag el = str ''file'') \<and>
     set (map (\<lambda>el. (elem_name el, child_texts el)) (files_of doc)) =
       {(str ''main.py'', [(str ''content'', Some (str ''print(1)''))]),
        (str ''README.md'', [(str ''content'', Some (str ''hi''))])} \<and>
     statistic doc (str ''total_files'') = Some (str ''2'')"
proof -
  let ?m = "joinpath root (str ''main.py'')" and ?r = "joinpath root (str ''README.md'')"
  have keep: "should_ignore default_archiver ?m = Some False"
    "should_ignore default_archiver ?r = Some False"
    using clear by (simp_all add: scenario_not_ignored)
  from emitted_content [OF scenario_types(1) [OF lower(1)] scenario_text(1), of st1
      default_archiver "str ''print(1)''" root] sizes
  obtain el1 where el1: "emitted h default_archiver ?m (readable st1 (str ''print(1)'')) = [el1]"
    "tag el1 = str ''file''" "elem_name el1 = str ''main.py''"
    "child_texts el1 = [(str ''content'', Some (str ''print(1)''))]"
    by (auto simp: default_archiver_simps scenario_text)
  from emitted_content [OF scenario_types(2) [OF lower(2)] scenario_text(2), of st2
      default_archiver "str ''hi''" root] sizes
  obtain el2 where el2: "emitted h default_archiver ?r (readable st2 (str ''hi'')) = [el2]"
    "tag el2 = str ''file''" "elem_name el2 = str ''README.md''"
    "child_texts el2 = [(str ''content'', Some (str ''hi''))]"
    by (auto simp: default_archiver_simps scenario_text)
  have rst: "f_stat (readable st1 (str ''print(1)'')) = Inr st1"
    "f_stat (readable st2 (str ''hi'')) = Inr st2"
    by (simp_all add: readable_def)
  from listing show ?thesis
  proof
    assume "entries = [main_entry st1, readme_entry st2]"
    with two_files_archive [OF default_patterns_supported keep(1) keep(2) rst(1) rst(2)
        el1(1) el2(1)]
      el1 el2 show ?thesis
      by (auto simp: main_entry_def readme_entry_def)
  next
    assume "entries = [readme_entry st2, main_entry st1]"
    with two_files_archive [OF default_patterns_supported keep(2) keep(1) rst(2) rst(1)
        el2(1) el1(1)]
      el1 el2 show ?thesis
      by (auto simp: main_entry_def readme_entry_def)
  qed
qed

lemma srv_clear:
  "\<forall>pat \<in> set default_ignore_patterns.
     \<not> str_in pat (path_str (joinpath srv (str ''main.py'')))"
  "\<forall>pat \<in> set default_ignore_patterns.
     \<not> str_in pat (path_str (joinpath srv (str ''README.md'')))"
  by (simp_all add: default_ignore_patterns_def srv_paths str_in_def)
    (simp_all add: str_def sublist_code)

theorem round_trip_two_files_witness:
  "\<exists>doc. archive_codebase plain_host default_archiver srv
            (Some (Dir [main_entry (sample_stat 8), readme_entry (sample_stat 2)])) =
            Some (Inr doc) \<and>
         length (files_of doc) = 2 \<and>
         set (map (\<lambda>el. (elem_name el, child_texts el)) (files_of doc)) =
           {(str ''main.py'', [(str ''content'', Some (str ''print(1)''))]),
            (str ''README.md'', [(str ''content'', Some (str ''hi''))])} \<and>
         statistic doc (str ''total_files'') = Some (str ''2'')"
proof -
  have lower: "str_lower plain_host (str ''.py'') = str ''.py''"
    "str_lower plain_host (str ''.md'') = str ''.md''"
    by (simp_all add: plain_host_simps ascii_lower_def str_def)
  have sizes: "st_size (sample_stat 8) = 8" "st_size (sample_stat 2) = 2"
    by (simp_all add: sample_stat_def)
  have listing: "[main_entry (sample_stat 8), readme_entry (sample_stat 2)] =
        [main_entry (sample_stat 8), readme_entry (sample_stat 2)] \<or>
      [main_entry (sample_stat 8), readme_entry (sample_stat 2)] =
        [readme_entry (sample_stat 2), main_entry (sample_stat 8)]"
    by simp
  from round_trip_two_files [OF lower srv_clear sizes listing] show ?thesis
    by blast
qed

lemma venv_project_ignored:
  "should_ignore default_archiver (joinpath venv_project (str ''main.py'')) = Some True"
  "should_ignore default_archiver (joinpath venv_project (str ''README.md'')) = Some True"
  by (simp_all add: should_ignore_def default_archiver_simps default_ignore_patterns_def
      venv_project_def path_str_def joinpath_def path_name_def
      match_pattern_def re_match_def replace_char_def re_special_def
      str_in_def str_def sublist_code)

text \<open>
  C1 as stated fails for a directory whose own path holds a default pattern: below
  \<open>/srv/venv/project\<close> both files are ignored, the \<open>files\<close> section is empty and the
  statistics carry \<open>total_files="0"\<close>.
\<close>

theorem round_trip_ignored_root_counterexample:
  "\<exists>doc. archive_codebase plain_host default_archiver venv_project
            (Some (Dir [main_entry (sample_stat 8), readme_entry (sample_stat 2)])) =
            Some (Inr doc) \<and>
         files_of doc = [] \<and>
         statistic doc (str ''total_files'') = Some (str ''0'')"
proof -
  have rst: "f_stat (readable (sample_stat 8) (str ''print(1)'')) = Inr (sample_stat 8)"
    "f_stat (readable (sample_stat 2) (str ''hi'')) = Inr (sample_stat 2)"
    by (simp_all add: readable_def)
  from two_files_ignored [OF default_patterns_supported venv_project_ignored rst, of plain_host]
  show ?thesis
    by (auto simp: main_entry_def readme_entry_def)
qed

end
